theory Spec2Isabelle
  imports Main
begin

section \<open>JavaScript values and built-ins used by the sources\<close>

text \<open>
  A JavaScript number as the sources produce it. \<open>parseInt\<close> yields no fraction, so a
  number is \<open>NaN\<close>, a double whose value is an integer (\<open>Num n\<close>: only integers that a
  double represents occur), negative zero, or an infinity.
\<close>

datatype number = NaN | Num int | NegZero | PosInfinity | NegInfinity

datatype JsValue =
    JUndefined
  | JNull
  | JBool bool
  | JNumber number
  | JString string
  | JObject "(string \<times> JsValue) list"

text \<open>ToBoolean, the test an \<open>if (v)\<close> performs.\<close>

fun truthy :: "JsValue \<Rightarrow> bool" where
  "truthy JUndefined = False"
| "truthy JNull = False"
| "truthy (JBool b) = b"
| "truthy (JNumber NaN) = False"
| "truthy (JNumber (Num n)) = (n \<noteq> 0)"
| "truthy (JNumber NegZero) = False"
| "truthy (JNumber PosInfinity) = True"
| "truthy (JNumber NegInfinity) = True"
| "truthy (JString s) = (s \<noteq> [])"
| "truthy (JObject fs) = True"

text \<open>
  White space that \<open>parseInt\<close> skips, among the one-byte characters: TAB, LF, VT, FF,
  CR, SP and NBSP.
\<close>

definition isWhiteSpace :: "char \<Rightarrow> bool" where
  "isWhiteSpace c = ((of_char c :: nat) \<in> {9, 10, 11, 12, 13, 32, 160})"

definition isDigit :: "char \<Rightarrow> bool" where
  "isDigit c = (48 \<le> (of_char c :: nat) \<and> (of_char c :: nat) \<le> 57)"

definition digitValue :: "char \<Rightarrow> nat" where
  "digitValue c = of_char c - 48"

definition digitsValue :: "string \<Rightarrow> nat" where
  "digitsValue ds = foldl (\<lambda>acc c. 10 * acc + digitValue c) 0 ds"

text \<open>
  The Number value of a positive integer: the nearest double, a tie going to the even
  significand of 53 bits; from \<open>2^1024\<close> on the result is infinite.
\<close>

fun bitLength :: "nat \<Rightarrow> nat" where
  "bitLength n = (if n = 0 then 0 else Suc (bitLength (n div 2)))"

declare bitLength.simps [simp del]

definition roundToDouble :: "nat \<Rightarrow> nat" where
  "roundToDouble m =
     (let e = bitLength m - 53; q = m div 2 ^ e; r = m mod 2 ^ e
      in if 2 ^ e < 2 * r \<or> (2 * r = 2 ^ e \<and> odd q) then (q + 1) * 2 ^ e else q * 2 ^ e)"

definition numberOf :: "bool \<Rightarrow> nat \<Rightarrow> number" where
  "numberOf negative m =
     (if m = 0 then (if negative then NegZero else Num 0)
      else if 2 ^ 1024 \<le> roundToDouble m
        then (if negative then NegInfinity else PosInfinity)
        else Num (if negative then - int (roundToDouble m) else int (roundToDouble m)))"

text \<open>
  \<open>parseInt(s, 10)\<close>: skip leading white space, read an optional sign, take the longest
  run of decimal digits; no digit gives \<open>NaN\<close>, otherwise the result is the Number value
  of the signed integer the digits denote (rounded as Node rounds it, to the nearest
  double). With radix 10 a \<open>0x\<close> prefix is not stripped.
\<close>

definition parseInt10 :: "string \<Rightarrow> number" where
  "parseInt10 s =
     (let t = dropWhile isWhiteSpace s;
          negative = (case t of c # _ \<Rightarrow> c = CHR ''-'' | [] \<Rightarrow> False);
          r = (case t of c # cs \<Rightarrow> (if c = CHR ''-'' \<or> c = CHR ''+'' then cs else t) | [] \<Rightarrow> t);
          z = takeWhile isDigit r
      in if z = [] then NaN else numberOf negative (digitsValue z))"

definition isNaN :: "number \<Rightarrow> bool" where
  "isNaN x = (x = NaN)"

text \<open>\<open>x <= 0\<close> on numbers: every comparison with \<open>NaN\<close> is false.\<close>

definition leZero :: "number \<Rightarrow> bool" where
  "leZero x =
     (case x of
        NaN \<Rightarrow> False
      | Num n \<Rightarrow> n \<le> 0
      | NegZero \<Rightarrow> True
      | PosInfinity \<Rightarrow> False
      | NegInfinity \<Rightarrow> True)"

text \<open>
  The decimal numeral of a natural number, as \<open>String(n)\<close> writes an integer below
  \<open>2^53\<close>; it is used to say what the parser reads.
\<close>

fun decimal :: "nat \<Rightarrow> string" where
  "decimal n =
     (if n < 10 then [char_of (48 + n)]
      else decimal (n div 10) @ [char_of (48 + n mod 10)])"

declare decimal.simps [simp del]

text \<open>
  \<open>s.split(' ')\<close>: the pieces of \<open>s\<close> between consecutive spaces, empty pieces kept; the
  empty string gives one empty piece.
\<close>

fun split_sp :: "string \<Rightarrow> string list" where
  "split_sp [] = [[]]"
| "split_sp (c # cs) =
     (if c = CHR '' '' then [] # split_sp cs
      else (case split_sp cs of w # ws \<Rightarrow> (c # w) # ws | [] \<Rightarrow> [[c]]))"

text \<open>\<open>ws.join(' ')\<close>, used to say what the pieces of a split are.\<close>

fun join_sp :: "string list \<Rightarrow> string" where
  "join_sp [] = []"
| "join_sp [w] = w"
| "join_sp (w # v # ws) = w @ CHR '' '' # join_sp (v # ws)"

section \<open>Claims objects\<close>

text \<open>
  The classes of \<open>plumbing-base/src/claims\<close>, by the arguments their constructors
  receive in \<open>ClaimsProvider\<close>.
\<close>

record BaseClaims =
  subject :: string
  scopes :: "string list"
  expiry :: number

record UserInfoClaims =
  givenName :: string
  familyName :: string
  email :: string

text \<open>\<open>CustomClaims\<close> is an open structure; \<open>new CustomClaims()\<close> has no entry.\<close>

datatype CustomClaims = CustomClaims "(string \<times> JsValue) list"

record ApiClaims =
  token :: BaseClaims
  userInfo :: UserInfoClaims
  custom :: CustomClaims

text \<open>
  A \<open>ClaimsPayload\<close> is used through \<open>getClaim(name)\<close> only. Its class file is not part
  of the sources, so a payload is represented by what \<open>getClaim\<close> does for each name:
  it returns a string (\<open>Inr\<close>) or raises (\<open>Inl\<close>).
\<close>

type_synonym 'e ClaimsPayload = "string \<Rightarrow> 'e + string"

definition getClaim :: "'e ClaimsPayload \<Rightarrow> string \<Rightarrow> 'e + string" where
  "getClaim data name = data name"

text \<open>A payload holding the given claims; any other claim name raises.\<close>

definition payloadOf :: "(string \<times> string) list \<Rightarrow> string ClaimsPayload" where
  "payloadOf kvs name = (case map_of kvs name of Some v \<Rightarrow> Inr v | None \<Rightarrow> Inl name)"

section \<open>ClaimsProvider\<close>

definition readBaseClaims :: "'e ClaimsPayload \<Rightarrow> 'e + BaseClaims" where
  "readBaseClaims data =
     (case getClaim data ''sub'' of Inl e \<Rightarrow> Inl e | Inr sub \<Rightarrow>
      (case getClaim data ''scope'' of Inl e \<Rightarrow> Inl e | Inr scope \<Rightarrow>
       (case getClaim data ''exp'' of Inl e \<Rightarrow> Inl e | Inr ex \<Rightarrow>
          Inr \<lparr>subject = sub, scopes = split_sp scope, expiry = parseInt10 ex\<rparr>)))"

definition readUserInfoClaims :: "'e ClaimsPayload \<Rightarrow> 'e + UserInfoClaims" where
  "readUserInfoClaims data =
     (case getClaim data ''given_name'' of Inl e \<Rightarrow> Inl e | Inr g \<Rightarrow>
      (case getClaim data ''family_name'' of Inl e \<Rightarrow> Inl e | Inr f \<Rightarrow>
       (case getClaim data ''email'' of Inl e \<Rightarrow> Inl e | Inr m \<Rightarrow>
          Inr \<lparr>givenName = g, familyName = f, email = m\<rparr>)))"

text \<open>
  \<open>supplyCustomClaims\<close> is asynchronous and can be overridden, so a supplier is a
  function on the world it may act on (network, stores): it returns its outcome and the
  world it leaves.
\<close>

type_synonym ('e, 's) CustomClaimsSupplier =
  "'e ClaimsPayload \<Rightarrow> 'e ClaimsPayload \<Rightarrow> 's \<Rightarrow> ('e + CustomClaims) \<times> 's"

definition supplyCustomClaims :: "('e, 's) CustomClaimsSupplier" where
  "supplyCustomClaims tokenData userInfoData s = (Inr (CustomClaims []), s)"

definition supplyClaims ::
  "('e, 's) CustomClaimsSupplier \<Rightarrow> 'e ClaimsPayload \<Rightarrow> 'e ClaimsPayload \<Rightarrow> 's
     \<Rightarrow> ('e + ApiClaims) \<times> 's" where
  "supplyClaims supplier tokenData userInfoData s =
     (case supplier tokenData userInfoData s of
        (Inl e, s') \<Rightarrow> (Inl e, s')
      | (Inr customClaims, s') \<Rightarrow>
          (case readBaseClaims tokenData of Inl e \<Rightarrow> (Inl e, s') | Inr b \<Rightarrow>
           (case readUserInfoClaims userInfoData of Inl e \<Rightarrow> (Inl e, s') | Inr u \<Rightarrow>
              (Inr \<lparr>token = b, userInfo = u, custom = customClaims\<rparr>, s'))))"

text \<open>
  Instrumentation: the same two-argument operation, counting its calls in a counter
  beside the world.
\<close>

definition counted ::
  "('a \<Rightarrow> 'b \<Rightarrow> 's \<Rightarrow> 'r \<times> 's) \<Rightarrow> 'a \<Rightarrow> 'b \<Rightarrow> 's \<times> nat \<Rightarrow> 'r \<times> ('s \<times> nat)" where
  "counted f a b sn = (case f a b (fst sn) of (r, s') \<Rightarrow> (r, (s', Suc (snd sn))))"

section \<open>BaseErrorCodes\<close>

definition BaseErrorCodes_serverError :: string where
  "BaseErrorCodes_serverError = ''server_error''"

definition BaseErrorCodes_unauthorizedRequest :: string where
  "BaseErrorCodes_unauthorizedRequest = ''unauthorized''"

definition BaseErrorCodes_claimsFailure :: string where
  "BaseErrorCodes_claimsFailure = ''claims_failure''"

definition BaseErrorCodes_exceptionSimulation :: string where
  "BaseErrorCodes_exceptionSimulation = ''exception_simulation''"

definition BaseErrorCodes_insufficientScope :: string where
  "BaseErrorCodes_insufficientScope = ''insufficient_scope''"

datatype FailureKind = UnauthorizedError | DependencyError | SimulatedException

text \<open>
  Modelled from the spec: the mapping from a failure kind to the code and the status
  the caller sees. The error classes, the error factory and the exception middleware
  that emit them are not part of the sources; the table follows the error taxonomy of
  the specification: \<open>UnauthorizedError\<close> is always 401 with code \<open>unauthorized\<close>,
  \<open>DependencyError\<close> is 500 with code \<open>server_error\<close>, \<open>SimulatedException\<close> is 500
  with code \<open>exception_simulation\<close>.
\<close>

fun externalCode :: "FailureKind \<Rightarrow> string" where
  "externalCode UnauthorizedError = ''unauthorized''"
| "externalCode DependencyError = ''server_error''"
| "externalCode SimulatedException = ''exception_simulation''"

fun externalStatus :: "FailureKind \<Rightarrow> nat" where
  "externalStatus UnauthorizedError = 401"
| "externalStatus DependencyError = 500"
| "externalStatus SimulatedException = 500"

section \<open>BaseCompositionRoot\<close>

text \<open>
  Objects have identity: a reference is \<open>null\<close> or the index of an object in the heap,
  and \<open>new\<close> appends an object. Two references are the same instance exactly when they
  are equal. An \<open>ExternalObject\<close> is one that the caller made (a configuration, a proxy,
  a claims provider), an \<open>EmptyObject\<close> the literal \<open>{}\<close>.
\<close>

datatype Ref = Null | Ref nat

datatype ClassName = AccessTokenRetriever | OAuthAuthenticator | JwtValidator

datatype Obj =
    EmptyObject
  | ExternalObject
  | JwksRetriever Ref Ref
  | Instance ClassName

type_synonym Heap = "Obj list"

definition new :: "Obj \<Rightarrow> Heap \<Rightarrow> Ref \<times> Heap" where
  "new obj h = (Ref (length h), h @ [obj])"

datatype BASETYPES =
    BASETYPES_LogEntry
  | BASETYPES_HttpProxy
  | BASETYPES_BaseClaims
  | BASETYPES_UserInfoClaims
  | BASETYPES_CustomClaims
  | BASETYPES_OAuthConfiguration
  | BASETYPES_JwksRetriever
  | BASETYPES_AccessTokenRetriever
  | BASETYPES_OAuthAuthenticator
  | BASETYPES_JwtValidator

text \<open>
  The inversify container, as far as the composition root uses it: \<open>bind\<close> adds a
  binding for an identifier, to a constant value or to a class in transient scope;
  \<open>get\<close> fails when the identifier has no binding or more than one, returns the bound
  value of a constant binding, and constructs a new instance for a transient one. The
  constructors of the transient classes are outside the sources: an activation is the
  allocation of one instance.
\<close>

datatype Binding = ToConstantValue Ref | ToTransient ClassName

type_synonym Container = "(BASETYPES \<times> Binding) list"

definition container_bind :: "BASETYPES \<Rightarrow> Binding \<Rightarrow> Container \<Rightarrow> Container" where
  "container_bind k b c = c @ [(k, b)]"

definition bindingsOf :: "Container \<Rightarrow> BASETYPES \<Rightarrow> Binding list" where
  "bindingsOf c k = map snd (filter (\<lambda>kb. fst kb = k) c)"

datatype ContainerError = NoMatchingBindings BASETYPES | AmbiguousMatch BASETYPES

definition container_get ::
  "Container \<Rightarrow> BASETYPES \<Rightarrow> Heap \<Rightarrow> (ContainerError + Ref) \<times> Heap" where
  "container_get c k h =
     (case bindingsOf c k of
        [] \<Rightarrow> (Inl (NoMatchingBindings k), h)
      | [ToConstantValue v] \<Rightarrow> (Inr v, h)
      | [ToTransient cls] \<Rightarrow> (case new (Instance cls) h of (r, h') \<Rightarrow> (Inr r, h'))
      | _ # _ # _ \<Rightarrow> (Inl (AmbiguousMatch k), h))"

text \<open>The resolutions of a process, one after the other, each on the heap the previous left.\<close>

fun resolveAll ::
  "Container \<Rightarrow> BASETYPES list \<Rightarrow> Heap \<Rightarrow> (ContainerError + Ref) list \<times> Heap" where
  "resolveAll c [] h = ([], h)"
| "resolveAll c (k # ks) h =
     (case container_get c k h of (r, h') \<Rightarrow>
        (case resolveAll c ks h' of (rs, h'') \<Rightarrow> (r # rs, h'')))"

record BaseCompositionRoot =
  container :: Container
  loggingConfiguration :: Ref
  oauthConfiguration :: Ref
  cacheConfiguration :: Ref
  claimsProvider :: Ref
  loggerFactory :: Ref
  httpProxy :: Ref

definition newBaseCompositionRoot :: "Container \<Rightarrow> BaseCompositionRoot" where
  "newBaseCompositionRoot c =
     \<lparr>container = c, loggingConfiguration = Null, oauthConfiguration = Null,
      cacheConfiguration = Null, claimsProvider = Null, loggerFactory = Null,
      httpProxy = Null\<rparr>"

definition useOAuth :: "Ref \<Rightarrow> BaseCompositionRoot \<Rightarrow> BaseCompositionRoot" where
  "useOAuth configuration root = root\<lparr>oauthConfiguration := configuration\<rparr>"

definition withClaimsProvider :: "Ref \<Rightarrow> Ref \<Rightarrow> BaseCompositionRoot \<Rightarrow> BaseCompositionRoot" where
  "withClaimsProvider provider configuration root =
     root\<lparr>claimsProvider := provider, cacheConfiguration := configuration\<rparr>"

definition useHttpProxy :: "Ref \<Rightarrow> BaseCompositionRoot \<Rightarrow> BaseCompositionRoot" where
  "useHttpProxy proxy root = root\<lparr>httpProxy := proxy\<rparr>"

definition registerBaseDependencies ::
  "BaseCompositionRoot \<Rightarrow> Heap \<Rightarrow> BaseCompositionRoot \<times> Heap" where
  "registerBaseDependencies root h =
     (case new EmptyObject h of (logEntry, h1) \<Rightarrow>
        (root\<lparr>container :=
           container_bind BASETYPES_HttpProxy (ToConstantValue (httpProxy root))
             (container_bind BASETYPES_LogEntry (ToConstantValue logEntry) (container root))\<rparr>,
         h1))"

definition registerClaimsDependencies ::
  "BaseCompositionRoot \<Rightarrow> Heap \<Rightarrow> BaseCompositionRoot \<times> Heap" where
  "registerClaimsDependencies root h =
     (case new EmptyObject h of (b, h1) \<Rightarrow>
      (case new EmptyObject h1 of (u, h2) \<Rightarrow>
       (case new EmptyObject h2 of (cu, h3) \<Rightarrow>
        (root\<lparr>container :=
           container_bind BASETYPES_CustomClaims (ToConstantValue cu)
             (container_bind BASETYPES_UserInfoClaims (ToConstantValue u)
               (container_bind BASETYPES_BaseClaims (ToConstantValue b) (container root)))\<rparr>,
         h3))))"

definition registerOAuthDependencies ::
  "BaseCompositionRoot \<Rightarrow> Heap \<Rightarrow> BaseCompositionRoot \<times> Heap" where
  "registerOAuthDependencies root h =
     (case new (JwksRetriever (oauthConfiguration root) (httpProxy root)) h of
        (jwksRetriever, h1) \<Rightarrow>
        (root\<lparr>container :=
           container_bind BASETYPES_JwtValidator (ToTransient JwtValidator)
             (container_bind BASETYPES_OAuthAuthenticator (ToTransient OAuthAuthenticator)
               (container_bind BASETYPES_AccessTokenRetriever (ToTransient AccessTokenRetriever)
                 (container_bind BASETYPES_JwksRetriever (ToConstantValue jwksRetriever)
                   (container_bind BASETYPES_OAuthConfiguration
                      (ToConstantValue (oauthConfiguration root)) (container root)))))\<rparr>,
         h1))"

definition register :: "BaseCompositionRoot \<Rightarrow> Heap \<Rightarrow> BaseCompositionRoot \<times> Heap" where
  "register root h =
     (case registerBaseDependencies root h of (r1, h1) \<Rightarrow>
      (case registerClaimsDependencies r1 h1 of (r2, h2) \<Rightarrow>
        registerOAuthDependencies r2 h2))"

text \<open>
  The caches. \<open>process.env\<close> is the environment the process runs in; \<open>createOAuthCache\<close>
  receives it although its body, as the source has it, never reads it: the selection on
  \<open>IS_LOCAL\<close> is inside a comment.
\<close>

datatype Cache = DevelopmentCache | AwsCache Ref Ref

type_synonym Env = "string \<rightharpoonup> string"

definition createOAuthCache :: "Env \<Rightarrow> BaseCompositionRoot \<Rightarrow> Cache" where
  "createOAuthCache env root = AwsCache (cacheConfiguration root) (claimsProvider root)"

text \<open>Running locally: \<open>process.env.IS_LOCAL === 'true'\<close>.\<close>

definition isLocal :: "Env \<Rightarrow> bool" where
  "isLocal env = (env ''IS_LOCAL'' = Some ''true'')"

definition objectsOfJwksRetriever :: "Heap \<Rightarrow> nat" where
  "objectsOfJwksRetriever h =
     length (filter (\<lambda>obj. case obj of JwksRetriever _ _ \<Rightarrow> True | _ \<Rightarrow> False) h)"

section \<open>Lambda events\<close>

text \<open>
  The fields of the event that the handlers and the cors middleware read:
  \<open>event.claims\<close>; \<open>event.pathParameters\<close> and \<open>event.headers\<close>, each \<open>null\<close> or an
  object of strings; and \<open>event.httpMethod\<close>, which only an HTTP event has.
\<close>

record Event =
  claims :: JsValue
  pathParameters :: "(string \<times> string) list option"
  httpMethod :: "string option"
  headers :: "(string \<times> string) list option"

section \<open>The company transactions handler\<close>

text \<open>
  The codes of \<open>SampleErrorCodes\<close> that the sources name; their strings are declared
  outside the sources.
\<close>

datatype SampleErrorCodes = invalidCompanyId | fileReadError

datatype ClientError = ClientError nat SampleErrorCodes string

definition createClientError :: "nat \<Rightarrow> SampleErrorCodes \<Rightarrow> string \<Rightarrow> ClientError" where
  "createClientError statusCode errorCode msg = ClientError statusCode errorCode msg"

datatype 'r Response = ObjectResponse nat 'r

definition objectResponse :: "nat \<Rightarrow> 'r \<Rightarrow> 'r Response" where
  "objectResponse statusCode body = ObjectResponse statusCode body"

text \<open>
  What a handler can raise: a \<open>TypeError\<close> (here when \<open>event.pathParameters\<close> is
  \<open>null\<close>), a client error, or whatever the code it calls raised.
\<close>

datatype 'e HandlerFailure = TypeError | Client ClientError | Raised 'e

text \<open>ToString of the argument of \<open>parseInt\<close>: a missing property is \<open>undefined\<close>.\<close>

definition toStringArg :: "string option \<Rightarrow> string" where
  "toStringArg v = (case v of Some s \<Rightarrow> s | None \<Rightarrow> ''undefined'')"

text \<open>
  \<open>containerGet\<close> is \<open>container.get(SAMPLETYPES.CompanyService)\<close> and
  \<open>getCompanyTransactions\<close> the method of the service it returns; both act on the world
  and may raise.
\<close>

definition baseHandler ::
  "('s \<Rightarrow> ('e + 'svc) \<times> 's) \<Rightarrow> ('svc \<Rightarrow> number \<Rightarrow> 's \<Rightarrow> ('e + 'r) \<times> 's) \<Rightarrow> Event \<Rightarrow> 's
     \<Rightarrow> ('e HandlerFailure + 'r Response) \<times> 's" where
  "baseHandler containerGet getCompanyTransactions event s =
     (case pathParameters event of
        None \<Rightarrow> (Inl TypeError, s)
      | Some params \<Rightarrow>
          (let ident = parseInt10 (toStringArg (map_of params ''id''))
           in if isNaN ident \<or> leZero ident
              then (Inl (Client (createClientError 400 invalidCompanyId
                      ''The company id must be a positive numeric integer'')), s)
              else (case containerGet s of
                      (Inl e, s1) \<Rightarrow> (Inl (Raised e), s1)
                    | (Inr service, s1) \<Rightarrow>
                        (case getCompanyTransactions service ident s1 of
                           (Inl e, s2) \<Rightarrow> (Inl (Raised e), s2)
                         | (Inr companies, s2) \<Rightarrow> (Inr (objectResponse 200 companies), s2)))))"

section \<open>MiddlewareHelper.enrichApiOperation\<close>

datatype 'c LogItem = LogText string | LogContext 'c | LogValue JsValue

text \<open>
  The asynchronous function that \<open>enrichApiOperation\<close> hands to middy. What it
  writes with \<open>console.log\<close> is returned beside its outcome; the operation acts on the
  world \<open>'s\<close>.
\<close>

definition apiOperationFunction ::
  "(Event \<Rightarrow> 'c \<Rightarrow> 's \<Rightarrow> ('e + JsValue) \<times> 's) \<Rightarrow> Event \<Rightarrow> 'c \<Rightarrow> 's
     \<Rightarrow> ('c LogItem list \<times> ('e + JsValue)) \<times> 's" where
  "apiOperationFunction operation event context s =
     (let logged = [LogText ''*** DEBUG: RUNNING OPERATION'',
                    LogText ''*** DEBUG: context'',
                    LogContext context,
                    LogText ''*** DEBUG: event claims'',
                    LogValue (claims event)]
      in if truthy (claims event)
         then (case operation event context s of (r, s') \<Rightarrow> ((logged, r), s'))
         else ((logged, Inr JUndefined), s))"

text \<open>
  middy, as the helper uses it. A middleware is an object with optional \<open>before\<close>,
  \<open>after\<close> and \<open>onError\<close> hooks. A hook receives the handler instance (event,
  context, response, error), may change it, and either calls \<open>next\<close>, with or without
  an error, or throws.
\<close>

record ('c, 'e) HandlerInstance =
  h_event :: Event
  h_context :: 'c
  h_response :: JsValue
  h_error :: "'e HandlerFailure option"

datatype 'e HookResult = Next "'e HandlerFailure option" | Throws "'e HandlerFailure"

type_synonym ('c, 'e) Hook =
  "('c, 'e) HandlerInstance \<Rightarrow> ('c, 'e) HandlerInstance \<times> 'e HookResult"

record ('c, 'e) Middleware =
  before :: "('c, 'e) Hook option"
  after :: "('c, 'e) Hook option"
  onError :: "('c, 'e) Hook option"

record ('c, 'e, 's) Middy =
  handlerFunction :: "Event \<Rightarrow> 'c \<Rightarrow> 's \<Rightarrow> ('c LogItem list \<times> ('e + JsValue)) \<times> 's"
  beforeMiddlewares :: "('c, 'e) Hook list"
  afterMiddlewares :: "('c, 'e) Hook list"
  errorMiddlewares :: "('c, 'e) Hook list"

definition middy ::
  "(Event \<Rightarrow> 'c \<Rightarrow> 's \<Rightarrow> ('c LogItem list \<times> ('e + JsValue)) \<times> 's) \<Rightarrow> ('c, 'e, 's) Middy" where
  "middy f =
     \<lparr>handlerFunction = f, beforeMiddlewares = [], afterMiddlewares = [],
      errorMiddlewares = []\<rparr>"

text \<open>
  \<open>.use(middleware)\<close>: a \<open>before\<close> hook runs after those already there, an \<open>after\<close>
  hook before them, an \<open>onError\<close> hook after them.
\<close>

definition middy_use ::
  "('c, 'e) Middleware \<Rightarrow> ('c, 'e, 's) Middy \<Rightarrow> ('c, 'e, 's) Middy" where
  "middy_use m instance =
     instance
       \<lparr>beforeMiddlewares :=
          beforeMiddlewares instance @ (case before m of Some h \<Rightarrow> [h] | None \<Rightarrow> []),
        afterMiddlewares :=
          (case after m of Some h \<Rightarrow> [h] | None \<Rightarrow> []) @ afterMiddlewares instance,
        errorMiddlewares :=
          errorMiddlewares instance @ (case onError m of Some h \<Rightarrow> [h] | None \<Rightarrow> [])\<rparr>"

text \<open>
  The \<open>before\<close> and the \<open>after\<close> hooks run in turn until one passes an error to
  \<open>next\<close> or throws.
\<close>

fun runMiddlewares ::
  "('c, 'e) Hook list \<Rightarrow> ('c, 'e) HandlerInstance
     \<Rightarrow> ('c, 'e) HandlerInstance \<times> 'e HandlerFailure option" where
  "runMiddlewares [] h = (h, None)"
| "runMiddlewares (hook # hooks) h =
     (case hook h of
        (h', Next None) \<Rightarrow> runMiddlewares hooks h'
      | (h', Next (Some err)) \<Rightarrow> (h', Some err)
      | (h', Throws err) \<Rightarrow> (h', Some err))"

text \<open>
  The \<open>onError\<close> hooks all run, each receiving what the one before passed to \<open>next\<close>;
  the error counts as handled as soon as one of them calls \<open>next\<close> without an error. A
  hook that throws ends the run with what it threw.
\<close>

fun runErrorMiddlewares ::
  "('c, 'e) Hook list \<Rightarrow> ('c, 'e) HandlerInstance \<Rightarrow> 'e HandlerFailure option \<Rightarrow> bool
     \<Rightarrow> ('c, 'e) HandlerInstance \<times> 'e HandlerFailure option" where
  "runErrorMiddlewares [] h err handled =
     (h, if handled \<or> err = None then None else err)"
| "runErrorMiddlewares (hook # hooks) h err handled =
     (case hook h of
        (h', Next err') \<Rightarrow> runErrorMiddlewares hooks h' err' (handled \<or> err = None)
      | (h', Throws err') \<Rightarrow> (h', Some err'))"

definition errorHandler ::
  "('c, 'e, 's) Middy \<Rightarrow> 'e HandlerFailure \<Rightarrow> ('c, 'e) HandlerInstance
     \<Rightarrow> 'e HandlerFailure + JsValue" where
  "errorHandler instance err h =
     (case runErrorMiddlewares (errorMiddlewares instance) (h\<lparr>h_error := Some err\<rparr>)
             (Some err) False of
        (h', None) \<Rightarrow> Inr (h_response h')
      | (h', Some err') \<Rightarrow> Inl err')"

text \<open>
  A call of the handler middy produces: the \<open>before\<close> hooks, the wrapped function (what
  its promise resolves to becomes the response), the \<open>after\<close> hooks; an error on the way
  goes to the \<open>onError\<close> hooks. The caller gets the response of the instance or the
  error left unhandled.
\<close>

definition invokeHandler ::
  "('c, 'e, 's) Middy \<Rightarrow> Event \<Rightarrow> 'c \<Rightarrow> 's
     \<Rightarrow> ('c LogItem list \<times> ('e HandlerFailure + JsValue)) \<times> 's" where
  "invokeHandler instance event context s =
     (case runMiddlewares (beforeMiddlewares instance)
             \<lparr>h_event = event, h_context = context, h_response = JNull, h_error = None\<rparr> of
        (h1, Some err) \<Rightarrow> (([], errorHandler instance err h1), s)
      | (h1, None) \<Rightarrow>
          (case handlerFunction instance (h_event h1) (h_context h1) s of
             ((logged, Inl e), s') \<Rightarrow> ((logged, errorHandler instance (Raised e) h1), s')
           | ((logged, Inr v), s') \<Rightarrow>
               (case runMiddlewares (afterMiddlewares instance) (h1\<lparr>h_response := v\<rparr>) of
                  (h2, Some err) \<Rightarrow> ((logged, errorHandler instance err h2), s')
                | (h2, None) \<Rightarrow> ((logged, Inr (h_response h2)), s'))))"

text \<open>
  The cors middleware of middy for the options the helper passes, \<open>{origins}\<close>: one
  function is its \<open>after\<close> and its \<open>onError\<close> hook. For an event with \<open>httpMethod\<close> it
  makes a falsy response an empty object, makes \<open>response.headers\<close> an object, and sets
  \<open>Access-Control-Allow-Origin\<close> unless the response has it; then it passes the error
  of the instance on. Assigning a property to a response or to headers that are a
  primitive throws a \<open>TypeError\<close>. How the library reads the origin of the request
  from the event is the parameter \<open>incomingOrigin\<close>; credentials stay off, as the
  helper leaves them.
\<close>

definition getOrigin :: "string option \<Rightarrow> string list \<Rightarrow> string" where
  "getOrigin incoming origins =
     (case origins of
        [] \<Rightarrow> ''*''
      | first # _ \<Rightarrow>
          (case incoming of
             Some i \<Rightarrow> (if i \<noteq> [] \<and> i \<in> set origins then i else first)
           | None \<Rightarrow> first))"

definition setProperty :: "string \<Rightarrow> JsValue \<Rightarrow> (string \<times> JsValue) list \<Rightarrow> (string \<times> JsValue) list" where
  "setProperty k v fs =
     (if map_of fs k = None then fs @ [(k, v)]
      else map (\<lambda>kv. if fst kv = k then (k, v) else kv) fs)"

definition addCorsHeaders ::
  "(Event \<Rightarrow> string option) \<Rightarrow> string list \<Rightarrow> ('c, 'e) Hook" where
  "addCorsHeaders incomingOrigin origins h =
     (case httpMethod (h_event h) of
        None \<Rightarrow> (h, Next (h_error h))
      | Some m \<Rightarrow>
          (case (if truthy (h_response h) then h_response h else JObject []) of
             JObject fs \<Rightarrow>
               (case (case map_of fs ''headers'' of
                        Some v \<Rightarrow> (if truthy v then v else JObject [])
                      | None \<Rightarrow> JObject []) of
                  JObject hs \<Rightarrow>
                    (h\<lparr>h_response :=
                         JObject (setProperty ''headers''
                           (JObject
                              (if map_of hs ''Access-Control-Allow-Origin'' = None
                               then setProperty ''Access-Control-Allow-Origin''
                                      (JString (getOrigin (incomingOrigin (h_event h)) origins)) hs
                               else hs)) fs)\<rparr>,
                     Next (h_error h))
                | _ \<Rightarrow> (h, Throws TypeError))
           | _ \<Rightarrow> (h, Throws TypeError)))"

definition cors :: "(Event \<Rightarrow> string option) \<Rightarrow> string list \<Rightarrow> ('c, 'e) Middleware" where
  "cors incomingOrigin origins =
     \<lparr>before = None,
      after = Some (addCorsHeaders incomingOrigin origins),
      onError = Some (addCorsHeaders incomingOrigin origins)\<rparr>"

text \<open>
  \<open>enrichApiOperation\<close>: middy around the function above, with the cors middleware and
  then the exception middleware. \<open>corsMiddleware\<close> is what \<open>cors(this._corsConfig)\<close>
  returns and \<open>exceptionMiddleware\<close> what \<open>exceptionMiddleware()\<close> returns; the file of
  the latter is outside the sources, so it is a parameter.
\<close>

definition enrichApiOperation ::
  "('c, 'e) Middleware \<Rightarrow> ('c, 'e) Middleware \<Rightarrow> (Event \<Rightarrow> 'c \<Rightarrow> 's \<Rightarrow> ('e + JsValue) \<times> 's)
     \<Rightarrow> ('c, 'e, 's) Middy" where
  "enrichApiOperation corsMiddleware exceptionMiddleware operation =
     middy_use exceptionMiddleware
       (middy_use corsMiddleware (middy (apiOperationFunction operation)))"

section \<open>JsonFileReader\<close>

text \<open>
  What \<open>fs.readFile\<close> and \<open>JSON.parse\<close> raise: an \<open>Error\<close> instance with its message and
  stack, or (as the comment of the source has it for file system errors) a JSON object.
  Neither raises \<open>null\<close> or \<open>undefined\<close>.
\<close>

datatype Thrown = ErrorInstance string JsValue | ThrownObject "(string \<times> JsValue) list"

definition stackOf :: "Thrown \<Rightarrow> JsValue" where
  "stackOf e =
     (case e of
        ErrorInstance msg st \<Rightarrow> st
      | ThrownObject fs \<Rightarrow> (case map_of fs ''stack'' of Some v \<Rightarrow> v | None \<Rightarrow> JUndefined))"

record ServerError =
  errorCode :: SampleErrorCodes
  message :: string
  stack :: JsValue
  details :: JsValue

definition createServerError :: "SampleErrorCodes \<Rightarrow> string \<Rightarrow> JsValue \<Rightarrow> ServerError" where
  "createServerError code msg st =
     \<lparr>errorCode = code, message = msg, stack = st, details = JUndefined\<rparr>"

definition setDetails :: "JsValue \<Rightarrow> ServerError \<Rightarrow> ServerError" where
  "setDetails d err = err\<lparr>details := d\<rparr>"

text \<open>
  \<open>readFile\<close> is \<open>fs.readFile\<close> followed by \<open>buffer.toString()\<close>, acting on the world;
  \<open>json_parse\<close> is \<open>JSON.parse\<close>.
\<close>

definition readData_try ::
  "(string \<Rightarrow> 's \<Rightarrow> (Thrown + string) \<times> 's) \<Rightarrow> (string \<Rightarrow> Thrown + 'j) \<Rightarrow> string \<Rightarrow> 's
     \<Rightarrow> (Thrown + 'j) \<times> 's" where
  "readData_try readFile json_parse filePath s =
     (case readFile filePath s of
        (Inl e, s') \<Rightarrow> (Inl e, s')
      | (Inr buffer, s') \<Rightarrow> (json_parse buffer, s'))"

definition readData_catch :: "Thrown \<Rightarrow> ServerError" where
  "readData_catch e =
     (let error = createServerError fileReadError ''Problem encountered reading data'' (stackOf e)
      in case e of
           ErrorInstance msg st \<Rightarrow> setDetails (JString msg) error
         | ThrownObject fs \<Rightarrow> setDetails (JObject fs) error)"

definition readData ::
  "(string \<Rightarrow> 's \<Rightarrow> (Thrown + string) \<times> 's) \<Rightarrow> (string \<Rightarrow> Thrown + 'j) \<Rightarrow> string \<Rightarrow> 's
     \<Rightarrow> (ServerError + 'j) \<times> 's" where
  "readData readFile json_parse filePath s =
     (case readData_try readFile json_parse filePath s of
        (Inr v, s') \<Rightarrow> (Inr v, s')
      | (Inl e, s') \<Rightarrow> (Inl (readData_catch e), s'))"

section \<open>Test fixtures\<close>

text \<open>The guest user, the scope and the user info of the repository's API tests.\<close>

definition guestUserId :: string where
  "guestUserId = ''a6b404b1-98af-41a2-8e7f-e4061dc0bf86''"

definition guestScope :: string where
  "guestScope = ''openid profile https://api.authsamples.com/investments''"

definition guestToken :: "string ClaimsPayload" where
  "guestToken = payloadOf
     [(''sub'', guestUserId), (''scope'', guestScope), (''exp'', ''1700000030'')]"

definition guestUserInfo :: "string ClaimsPayload" where
  "guestUserInfo = payloadOf
     [(''given_name'', ''Guest''),
      (''family_name'', ''User''),
      (''email'', ''guestuser@mycompany.com'')]"

text \<open>The claims of a token as the test token issuer signs it.\<close>

definition issuedToken :: "string ClaimsPayload" where
  "issuedToken = payloadOf
     [(''sub'', guestUserId), (''iss'', ''testissuer.com''), (''aud'', ''api.mycompany.com''),
      (''scope'', guestScope), (''exp'', ''1700000030'')]"

text \<open>
  Instrumentation for the handler: the resolution of the service and its invocation,
  each recording itself in a trace beside the world.
\<close>

datatype ServiceCall = Resolved | Invoked number

definition tracedGet ::
  "('s \<Rightarrow> 'r \<times> 's) \<Rightarrow> 's \<times> ServiceCall list \<Rightarrow> 'r \<times> ('s \<times> ServiceCall list)" where
  "tracedGet f st = (case f (fst st) of (r, s') \<Rightarrow> (r, (s', snd st @ [Resolved])))"

definition tracedInvoke ::
  "('svc \<Rightarrow> number \<Rightarrow> 's \<Rightarrow> 'r \<times> 's) \<Rightarrow> 'svc \<Rightarrow> number \<Rightarrow> 's \<times> ServiceCall list
     \<Rightarrow> 'r \<times> ('s \<times> ServiceCall list)" where
  "tracedInvoke f service ident st =
     (case f service ident (fst st) of (r, s') \<Rightarrow> (r, (s', snd st @ [Invoked ident])))"

text \<open>
  A container that resolves the service, and a service that knows company 2 only, as
  the guest user of the API tests sees it.
\<close>

definition testContainerGet :: "unit \<Rightarrow> (string + unit) \<times> unit" where
  "testContainerGet s = (Inr (), s)"

definition testGetCompanyTransactions ::
  "unit \<Rightarrow> number \<Rightarrow> unit \<Rightarrow> (string + string) \<times> unit" where
  "testGetCompanyTransactions service ident s =
     (if ident = Num 2 then (Inr ''transactions of company 2'', s)
      else (Inl ''company_not_found'', s))"

text \<open>A container in which the service is not bound.\<close>

definition failingContainerGet :: "unit \<Rightarrow> (string + unit) \<times> unit" where
  "failingContainerGet s = (Inl ''No matching bindings found'', s)"

text \<open>A token whose expiry is the numeral of \<open>2^53 + 1\<close>, which no double represents.\<close>

definition farToken :: "string ClaimsPayload" where
  "farToken = payloadOf
     [(''sub'', guestUserId), (''scope'', guestScope), (''exp'', ''9007199254740993'')]"

text \<open>A token whose expiry is the numeral of \<open>2^1024\<close>, beyond every finite double.\<close>

definition hugeToken :: "string ClaimsPayload" where
  "hugeToken = payloadOf
     [(''sub'', guestUserId), (''scope'', guestScope), (''exp'', decimal (2 ^ 1024))]"

definition eventWithId :: "string \<Rightarrow> Event" where
  "eventWithId i =
     \<lparr>claims = JUndefined, pathParameters = Some [(''id'', i)], httpMethod = Some ''GET'',
      headers = None\<rparr>"

text \<open>
  An HTTP request with the given claims, as the test harness sends it, and the same
  event without \<open>httpMethod\<close>.
\<close>

definition eventWithClaims :: "JsValue \<Rightarrow> Event" where
  "eventWithClaims c =
     \<lparr>claims = c, pathParameters = None, httpMethod = Some ''GET'',
      headers = Some [(''x-mycompany-api-client'', ''ServerlessTest'')]\<rparr>"

definition plainEventWithClaims :: "JsValue \<Rightarrow> Event" where
  "plainEventWithClaims c =
     \<lparr>claims = c, pathParameters = None, httpMethod = None, headers = None\<rparr>"

definition originHeader :: "Event \<Rightarrow> string option" where
  "originHeader event = (case headers event of Some hs \<Rightarrow> map_of hs ''origin'' | None \<Rightarrow> None)"

definition trustedOrigins :: "string list" where
  "trustedOrigins = [''https://web.mycompany.com'']"

text \<open>An exception middleware with an \<open>onError\<close> hook only, which handles every error.\<close>

definition testExceptionMiddleware :: "(unit, string) Middleware" where
  "testExceptionMiddleware =
     \<lparr>before = None, after = None,
      onError = Some (\<lambda>h. (h\<lparr>h_response := JObject [(''statusCode'', JNumber (Num 500))]\<rparr>,
                           Next None))\<rparr>"

definition testOperation :: "Event \<Rightarrow> unit \<Rightarrow> unit \<Rightarrow> (string + JsValue) \<times> unit" where
  "testOperation event context s = (Inr (JString ''done''), s)"

text \<open>The class that an identifier bound in transient scope constructs.\<close>

fun transientClass :: "BASETYPES \<Rightarrow> ClassName option" where
  "transientClass BASETYPES_AccessTokenRetriever = Some AccessTokenRetriever"
| "transientClass BASETYPES_OAuthAuthenticator = Some OAuthAuthenticator"
| "transientClass BASETYPES_JwtValidator = Some JwtValidator"
| "transientClass _ = None"

text \<open>
  A composition root as a lambda configures it: a new container, the OAuth configuration
  (the one object of the heap), no proxy; and the resolutions of two requests.
\<close>

definition testHeap :: Heap where
  "testHeap = [ExternalObject]"

definition testRoot :: BaseCompositionRoot where
  "testRoot = useHttpProxy Null (useOAuth (Ref 0) (newBaseCompositionRoot []))"

definition testRequests :: "BASETYPES list" where
  "testRequests =
     [BASETYPES_JwksRetriever, BASETYPES_JwtValidator,
      BASETYPES_JwksRetriever, BASETYPES_JwtValidator, BASETYPES_AccessTokenRetriever]"

section \<open>Properties of the built-ins\<close>

lemmas parse_defs = parseInt10_def isWhiteSpace_def isDigit_def digitsValue_def digitValue_def
  numberOf_def roundToDouble_def bitLength.simps

lemma bitLength_le: "n < 2 ^ k \<Longrightarrow> bitLength n \<le> k"
proof (induction k arbitrary: n)
  case 0
  then show ?case by (simp add: bitLength.simps)
next
  case (Suc k)
  show ?case
  proof (cases "n = 0")
    case True
    then show ?thesis by (simp add: bitLength.simps)
  next
    case False
    from Suc.prems have "n div 2 < 2 ^ k" by simp
    from Suc.IH [OF this] False show ?thesis by (subst bitLength.simps) simp
  qed
qed

lemma roundToDouble_exact: "m < 2 ^ 53 \<Longrightarrow> roundToDouble m = m"
  using bitLength_le [of m 53] by (simp add: roundToDouble_def)

lemma numberOf_exact: "m < 2 ^ 53 \<Longrightarrow> numberOf False m = Num (int m)"
proof -
  assume a: "m < 2 ^ 53"
  have "(2::nat) ^ 53 < 2 ^ 1024" by simp
  with a have "m < 2 ^ 1024" by (rule less_trans)
  with a show ?thesis by (simp add: numberOf_def roundToDouble_exact)
qed

lemma bitLength_bounds: "0 < m \<Longrightarrow> 2 ^ (bitLength m - 1) \<le> m \<and> m < 2 ^ bitLength m"
proof (induction m rule: bitLength.induct)
  case (1 n)
  show ?case
  proof (cases "n div 2 = 0")
    case True
    with 1 have "n = 1" by (simp add: div_eq_0_iff) 
    then show ?thesis by (simp add: bitLength.simps)
  next
    case False
    then have pos: "0 < n div 2" by simp
    from 1 have "n \<noteq> 0" by simp
    from "1.IH" [OF this pos] have IH: "2 ^ (bitLength (n div 2) - 1) \<le> n div 2"
      "n div 2 < 2 ^ bitLength (n div 2)" by simp_all
    have bl: "bitLength n = Suc (bitLength (n div 2))" using \<open>n \<noteq> 0\<close> by (subst bitLength.simps) simp
    have pos2: "0 < bitLength (n div 2)" using pos by (subst bitLength.simps) simp
    then have "(2::nat) ^ (bitLength n - 1) = 2 * 2 ^ (bitLength (n div 2) - 1)"
      unfolding bl by (cases "bitLength (n div 2)") simp_all
    moreover have "2 * (n div 2) \<le> n" by simp
    ultimately have lo: "2 ^ (bitLength n - 1) \<le> n" using IH(1) by linarith
    have "n < 2 * (n div 2) + 2" by presburger
    then have hi: "n < 2 ^ bitLength n" unfolding bl using IH(2) by simp
    from lo hi show ?thesis by simp
  qed
qed

lemma roundToDouble_large: assumes "2 ^ 1024 \<le> m" shows "2 ^ 1024 \<le> roundToDouble m"
proof -
  from assms have pos: "0 < m" by (metis gr0I not_less_eq_eq le_zero_eq power_eq_0_iff zero_neq_numeral)
  from bitLength_bounds [OF pos] assms have "(2::nat) ^ 1024 < 2 ^ bitLength m" by linarith
  moreover have "(1::nat) < 2" by simp
  ultimately have big: "1024 < bitLength m" by (rule power_less_imp_less_exp [rotated])
  define e where "e = bitLength m - 53"
  define q where "q = m div 2 ^ e"
  have e: "bitLength m - 1 = 52 + e" "972 \<le> e" using big by (simp_all add: e_def)
  have "2 ^ 52 * 2 ^ e \<le> m" using bitLength_bounds [OF pos] e(1) by (simp add: power_add)
  then have "2 ^ 52 \<le> q" unfolding q_def
    by (metis div_le_mono div_mult_self_is_m zero_less_numeral zero_less_power)
  then have "2 ^ 52 * 2 ^ e \<le> q * 2 ^ e" by simp
  moreover have "(2::nat) ^ 1024 \<le> 2 ^ 52 * 2 ^ e"
  proof -
    have eq: "(2::nat) ^ 1024 = 2 ^ 52 * 2 ^ 972" by simp
    have p: "(2::nat) ^ 972 \<le> 2 ^ e" by (rule power_increasing [OF e(2)]) simp
    show ?thesis by (subst eq) (rule mult_le_mono2 [OF p])
  qed
  ultimately have "2 ^ 1024 \<le> q * 2 ^ e" by linarith
  moreover have "q * 2 ^ e \<le> roundToDouble m"
    by (simp add: roundToDouble_def Let_def e_def [symmetric] q_def [symmetric])
  ultimately show ?thesis by linarith
qed

lemma numberOf_infinite: "2 ^ 1024 \<le> m \<Longrightarrow> numberOf False m = PosInfinity"
  using roundToDouble_large [of m] by (auto simp: numberOf_def)

lemma digit_char: "d < 10 \<Longrightarrow> isDigit (char_of (48 + d)) \<and> digitValue (char_of (48 + d)) = d"
  by (simp add: isDigit_def digitValue_def)

lemma digitsValue_snoc: "digitsValue (ds @ [c]) = 10 * digitsValue ds + digitValue c"
  by (simp add: digitsValue_def)

lemma decimal_digits:
  "decimal n \<noteq> [] \<and> (\<forall>c \<in> set (decimal n). isDigit c) \<and> digitsValue (decimal n) = n"
proof (induction n rule: decimal.induct)
  case (1 n)
  show ?case
  proof (cases "n < 10")
    case True
    then show ?thesis
      using digit_char [of n] by (subst (1 2 3) decimal.simps) (simp add: digitsValue_def)
  next
    case False
    have "n mod 10 < 10" by simp
    from digit_char [OF this] 1 [OF False] False show ?thesis
      by (subst (1 2 3) decimal.simps) (simp add: digitsValue_snoc)
  qed
qed

lemma digit_plain: "isDigit c \<Longrightarrow> \<not> isWhiteSpace c \<and> c \<noteq> CHR ''-'' \<and> c \<noteq> CHR ''+''"
  by (auto simp: isDigit_def isWhiteSpace_def)

lemma parseInt10_digits:
  assumes "ds \<noteq> []" and "\<forall>c \<in> set ds. isDigit c"
  shows "parseInt10 ds = numberOf False (digitsValue ds)"
proof -
  from assms obtain c cs where ds: "ds = c # cs" by (cases ds) auto
  with assms have c: "isDigit c" by simp
  have t: "takeWhile isDigit ds = ds" using assms(2) by (simp add: takeWhile_eq_all_conv)
  have d: "dropWhile isWhiteSpace ds = ds" using ds digit_plain [OF c] by simp
  show ?thesis
    unfolding parseInt10_def d
    using digit_plain [OF c] assms(1) t by (simp add: ds Let_def)
qed

lemma parseInt10_decimal: "parseInt10 (decimal n) = numberOf False n"
  using parseInt10_digits [of "decimal n"] decimal_digits [of n] by simp

lemma parseInt10_decimal_exact: "n < 2 ^ 53 \<Longrightarrow> parseInt10 (decimal n) = Num (int n)"
  by (simp add: parseInt10_decimal numberOf_exact)

lemma parseInt10_decimal_infinite: "2 ^ 1024 \<le> n \<Longrightarrow> parseInt10 (decimal n) = PosInfinity"
  by (simp only: parseInt10_decimal numberOf_infinite)

lemma leZero_cases:
  "(isNaN x \<or> leZero x) =
     (x = NaN \<or> x = NegZero \<or> x = NegInfinity \<or> (\<exists>n. x = Num n \<and> n \<le> 0))"
  by (cases x) (simp_all add: isNaN_def leZero_def)

lemma split_sp_nonempty: "split_sp s \<noteq> []"
  by (induction s) (auto split: list.splits)

lemma split_sp_no_space: "w \<in> set (split_sp s) \<Longrightarrow> CHR '' '' \<notin> set w"
proof (induction s arbitrary: w)
  case Nil
  then show ?case by simp
next
  case (Cons c cs)
  show ?case
  proof (cases "c = CHR '' ''")
    case True
    with Cons show ?thesis by auto
  next
    case False
    obtain v vs where vs: "split_sp cs = v # vs"
      using split_sp_nonempty [of cs] by (cases "split_sp cs") auto
    with Cons.prems False have "w = c # v \<or> w \<in> set vs" by simp
    then show ?thesis
    proof
      assume "w = c # v"
      moreover have "CHR '' '' \<notin> set v" using Cons.IH [of v] vs by simp
      ultimately show ?thesis using False by auto
    next
      assume "w \<in> set vs"
      then show ?thesis using Cons.IH [of w] vs by simp
    qed
  qed
qed

lemma join_sp_Cons: "ws \<noteq> [] \<Longrightarrow> join_sp (w # ws) = w @ CHR '' '' # join_sp ws"
  by (cases ws) simp_all

lemma join_split_sp: "join_sp (split_sp s) = s"
proof (induction s)
  case Nil
  show ?case by simp
next
  case (Cons c cs)
  obtain v vs where vs: "split_sp cs = v # vs"
    using split_sp_nonempty [of cs] by (cases "split_sp cs") auto
  show ?case
  proof (cases "c = CHR '' ''")
    case True
    then show ?thesis using Cons.IH split_sp_nonempty [of cs] by (simp add: join_sp_Cons)
  next
    case False
    have "join_sp ((c # v) # vs) = c # join_sp (v # vs)" by (cases vs) simp_all
    then show ?thesis using False vs Cons.IH by simp
  qed
qed

lemma split_join_sp:
  "ws \<noteq> [] \<Longrightarrow> (\<forall>w \<in> set ws. CHR '' '' \<notin> set w) \<Longrightarrow> split_sp (join_sp ws) = ws"
proof (induction ws rule: join_sp.induct)
  case 1
  then show ?case by simp
next
  case (2 w)
  then have "CHR '' '' \<notin> set w" by simp
  then have "split_sp w = [w]"
    by (induction w) auto
  then show ?case by simp
next
  case (3 w v ws)
  then have IH: "split_sp (join_sp (v # ws)) = v # ws" by simp
  from 3 have "CHR '' '' \<notin> set w" by simp
  then have "split_sp (w @ CHR '' '' # join_sp (v # ws)) = w # v # ws"
    using IH by (induction w) auto
  then show ?case by simp
qed

lemma split_sp_unique:
  "(ws = split_sp s) = (ws \<noteq> [] \<and> (\<forall>w \<in> set ws. CHR '' '' \<notin> set w) \<and> join_sp ws = s)"
  using split_sp_nonempty split_sp_no_space join_split_sp split_join_sp by metis

section \<open>Reading the base claims\<close>

lemma parse_exp: "parseInt10 ''1700000030'' = Num 1700000030"
  by (simp add: parse_defs)

lemma parse_far: "parseInt10 ''9007199254740993'' = Num 9007199254740992"
  by (simp add: parse_defs)

lemma digit_chars:
  "char_of (48 :: nat) = CHR ''0''" "char_of (49 :: nat) = CHR ''1''"
  "char_of (50 :: nat) = CHR ''2''" "char_of (51 :: nat) = CHR ''3''"
  "char_of (52 :: nat) = CHR ''4''" "char_of (53 :: nat) = CHR ''5''"
  "char_of (54 :: nat) = CHR ''6''" "char_of (55 :: nat) = CHR ''7''"
  "char_of (56 :: nat) = CHR ''8''" "char_of (57 :: nat) = CHR ''9''"
  by code_simp+

lemma decimal_exp: "decimal 1700000030 = ''1700000030''"
  by (simp add: decimal.simps digit_chars)

lemma split_scope: "split_sp guestScope =
   [''openid'', ''profile'', ''https://api.authsamples.com/investments'']"
  by (simp add: guestScope_def)

lemma guestToken_claims:
  "getClaim guestToken ''sub'' = Inr guestUserId"
  "getClaim guestToken ''scope'' = Inr guestScope"
  "getClaim guestToken ''exp'' = Inr ''1700000030''"
  by (simp_all add: guestToken_def payloadOf_def getClaim_def)

lemma farToken_claims:
  "getClaim farToken ''sub'' = Inr guestUserId"
  "getClaim farToken ''scope'' = Inr guestScope"
  "getClaim farToken ''exp'' = Inr ''9007199254740993''"
  by (simp_all add: farToken_def payloadOf_def getClaim_def)

lemma hugeToken_claims:
  "getClaim hugeToken ''sub'' = Inr guestUserId"
  "getClaim hugeToken ''scope'' = Inr guestScope"
  "getClaim hugeToken ''exp'' = Inr (decimal (2 ^ 1024))"
  by (simp_all add: hugeToken_def payloadOf_def getClaim_def)

lemma guestUserInfo_claims:
  "getClaim guestUserInfo ''given_name'' = Inr ''Guest''"
  "getClaim guestUserInfo ''family_name'' = Inr ''User''"
  "getClaim guestUserInfo ''email'' = Inr ''guestuser@mycompany.com''"
  by (simp_all add: guestUserInfo_def payloadOf_def getClaim_def)

text \<open>
  C1: when the token payload returns strings for \<open>sub\<close>, \<open>scope\<close> and \<open>exp\<close>,
  \<open>_readBaseClaims\<close> returns base claims whose subject is the \<open>sub\<close> claim, whose scopes
  are exactly the space-separated pieces of the \<open>scope\<close> claim (the one non-empty list of
  space-free strings that joins back to it), and whose expiry is \<open>parseInt(exp, 10)\<close>:
  for an \<open>exp\<close> that is the decimal numeral of \<open>n\<close> it is the double nearest to \<open>n\<close>,
  which is \<open>n\<close> itself below \<open>2^53\<close> and infinite from \<open>2^1024\<close> on. Every \<open>ApiClaims\<close> that \<open>supplyClaims\<close> returns
  for this payload has that subject.
\<close>

theorem readBaseClaims_from_payload:
  assumes "getClaim data ''sub'' = Inr sub"
    and "getClaim data ''scope'' = Inr scope"
    and "getClaim data ''exp'' = Inr ex"
  shows "\<exists>b. readBaseClaims data = Inr b
           \<and> subject b = sub
           \<and> scopes b = split_sp scope
           \<and> (\<forall>ws. (ws = scopes b) =
                 (ws \<noteq> [] \<and> (\<forall>w \<in> set ws. CHR '' '' \<notin> set w) \<and> join_sp ws = scope))
           \<and> expiry b = parseInt10 ex
           \<and> (\<forall>n. ex = decimal n \<longrightarrow> expiry b = numberOf False n)
           \<and> (\<forall>n. ex = decimal n \<and> n < 2 ^ 53 \<longrightarrow> expiry b = Num (int n))
           \<and> (\<forall>n. ex = decimal n \<and> 2 ^ 1024 \<le> n \<longrightarrow> expiry b = PosInfinity)
           \<and> (\<forall>supplier userInfoData s api s'.
                 supplyClaims supplier data userInfoData s = (Inr api, s')
                   \<longrightarrow> subject (token api) = sub)"
proof -
  let ?b = "\<lparr>subject = sub, scopes = split_sp scope, expiry = parseInt10 ex\<rparr>"
  have rd: "readBaseClaims data = Inr ?b"
    using assms by (simp add: readBaseClaims_def)
  have sub: "subject (token api) = sub"
    if "supplyClaims supplier data userInfoData s = (Inr api, s')"
    for supplier :: "('a, 'b) CustomClaimsSupplier" and userInfoData s api s'
    using that rd
    by (auto simp: supplyClaims_def split: prod.splits sum.splits)
  have "\<forall>ws. (ws = scopes ?b) =
          (ws \<noteq> [] \<and> (\<forall>w \<in> set ws. CHR '' '' \<notin> set w) \<and> join_sp ws = scope)"
    using split_sp_unique [of _ scope] by simp
  moreover have "\<forall>n. ex = decimal n \<longrightarrow> expiry ?b = numberOf False n"
    by (simp add: parseInt10_decimal)
  moreover have "\<forall>n. ex = decimal n \<and> n < 2 ^ 53 \<longrightarrow> expiry ?b = Num (int n)"
    by (simp add: parseInt10_decimal_exact)
  moreover have "\<forall>n. ex = decimal n \<and> 2 ^ 1024 \<le> n \<longrightarrow> expiry ?b = PosInfinity"
    using parseInt10_decimal_infinite by auto
  ultimately show ?thesis using rd sub by auto
qed

theorem readBaseClaims_from_payload_witness:
  "getClaim guestToken ''sub'' = Inr guestUserId
   \<and> getClaim guestToken ''scope'' = Inr guestScope
   \<and> getClaim guestToken ''exp'' = Inr ''1700000030''
   \<and> ''1700000030'' = decimal 1700000030
   \<and> (1700000030 :: nat) < 2 ^ 53
   \<and> (\<exists>b. readBaseClaims guestToken = Inr b
         \<and> subject b = guestUserId
         \<and> scopes b = [''openid'', ''profile'', ''https://api.authsamples.com/investments'']
         \<and> expiry b = Num 1700000030)
   \<and> (\<exists>api. supplyClaims supplyCustomClaims guestToken guestUserInfo () = (Inr api, ())
         \<and> subject (token api) = guestUserId)
   \<and> (\<exists>b. readBaseClaims farToken = Inr b \<and> expiry b = Num 9007199254740992)
   \<and> (\<exists>b. readBaseClaims hugeToken = Inr b \<and> expiry b = PosInfinity)"
proof -
  note inst = readBaseClaims_from_payload [OF guestToken_claims]
  then obtain b where b:
    "readBaseClaims guestToken = Inr b
       \<and> subject b = guestUserId
       \<and> scopes b = split_sp guestScope
       \<and> (\<forall>ws. (ws = scopes b) =
             (ws \<noteq> [] \<and> (\<forall>w \<in> set ws. CHR '' '' \<notin> set w) \<and> join_sp ws = guestScope))
       \<and> expiry b = parseInt10 ''1700000030''
       \<and> (\<forall>n. ''1700000030'' = decimal n \<longrightarrow> expiry b = numberOf False n)
       \<and> (\<forall>n. ''1700000030'' = decimal n \<and> n < 2 ^ 53 \<longrightarrow> expiry b = Num (int n))
       \<and> (\<forall>n. ''1700000030'' = decimal n \<and> 2 ^ 1024 \<le> n \<longrightarrow> expiry b = PosInfinity)
       \<and> (\<forall>(supplier :: (string, unit) CustomClaimsSupplier) userInfoData s api s'.
             supplyClaims supplier guestToken userInfoData s = (Inr api, s')
               \<longrightarrow> subject (token api) = guestUserId)" ..
  have b1: "readBaseClaims guestToken = Inr b" using b by (rule conjunct1)
  have b2: "subject b = guestUserId" using b by simp
  have b3: "scopes b = split_sp guestScope" using b by simp
  have small: "(1700000030 :: nat) < 2 ^ 53" by simp
  have "''1700000030'' = decimal 1700000030 \<and> (1700000030 :: nat) < 2 ^ 53
          \<longrightarrow> expiry b = Num (int 1700000030)"
    using b by (elim conjE allE [where x = "1700000030 :: nat"])
  then have b4: "expiry b = Num 1700000030"
    using decimal_exp small by simp
  have b5: "supplyClaims supplyCustomClaims guestToken guestUserInfo () = (Inr api, ())
               \<longrightarrow> subject (token api) = guestUserId" for api
    using b by simp
  have part1: "\<exists>b. readBaseClaims guestToken = Inr b
         \<and> subject b = guestUserId
         \<and> scopes b = [''openid'', ''profile'', ''https://api.authsamples.com/investments'']
         \<and> expiry b = Num 1700000030"
    using b1 b2 b3 b4 unfolding split_scope by (intro exI [of _ b] conjI)
  have "readUserInfoClaims guestUserInfo =
          Inr \<lparr>givenName = ''Guest'', familyName = ''User'', email = ''guestuser@mycompany.com''\<rparr>"
    by (simp add: readUserInfoClaims_def guestUserInfo_claims)
  then have "\<exists>api. supplyClaims supplyCustomClaims guestToken guestUserInfo () = (Inr api, ())"
    using b1 by (simp add: supplyClaims_def supplyCustomClaims_def)
  then obtain a where a: "supplyClaims supplyCustomClaims guestToken guestUserInfo () = (Inr a, ())" ..
  then have "subject (token a) = guestUserId" using b5 [of a] by (rule_tac mp)
  with a have part2: "\<exists>api. supplyClaims supplyCustomClaims guestToken guestUserInfo () = (Inr api, ())
         \<and> subject (token api) = guestUserId"
    by (intro exI [of _ a] conjI)
  from readBaseClaims_from_payload [OF farToken_claims]
  obtain c where "readBaseClaims farToken = Inr c" "expiry c = parseInt10 ''9007199254740993''"
    by (elim exE conjE)
  then have part3: "\<exists>b. readBaseClaims farToken = Inr b \<and> expiry b = Num 9007199254740992"
    unfolding parse_far by (intro exI [of _ c] conjI)
  from readBaseClaims_from_payload [OF hugeToken_claims]
  obtain d where d: "readBaseClaims hugeToken = Inr d"
    "\<forall>n. decimal (2 ^ 1024) = decimal n \<and> 2 ^ 1024 \<le> n \<longrightarrow> expiry d = PosInfinity"
    by (elim exE conjE)
  from d(2) have "decimal (2 ^ 1024) = decimal (2 ^ 1024) \<and> (2 :: nat) ^ 1024 \<le> 2 ^ 1024
                    \<longrightarrow> expiry d = PosInfinity" ..
  then have "expiry d = PosInfinity" by (rule mp) (intro conjI refl order_refl)
  with d(1) have part4: "\<exists>b. readBaseClaims hugeToken = Inr b \<and> expiry b = PosInfinity"
    by (intro exI [of _ d] conjI)
  show ?thesis
    using guestToken_claims decimal_exp [symmetric] small part1 part2 part3 part4
    by (intro conjI)
qed

section \<open>Reading the user info claims\<close>

text \<open>
  C7: when the user info payload returns strings for \<open>given_name\<close>, \<open>family_name\<close> and
  \<open>email\<close>, \<open>_readUserInfoClaims\<close> returns user info claims with exactly these three
  values; and it reads nothing else: a payload that answers these three names in the same
  way gives the same result.
\<close>

theorem readUserInfoClaims_from_payload:
  assumes "getClaim data ''given_name'' = Inr g"
    and "getClaim data ''family_name'' = Inr f"
    and "getClaim data ''email'' = Inr m"
  shows "readUserInfoClaims data = Inr \<lparr>givenName = g, familyName = f, email = m\<rparr>
         \<and> (\<forall>data'. getClaim data' ''given_name'' = getClaim data ''given_name''
                  \<and> getClaim data' ''family_name'' = getClaim data ''family_name''
                  \<and> getClaim data' ''email'' = getClaim data ''email''
               \<longrightarrow> readUserInfoClaims data' = readUserInfoClaims data)"
  using assms by (simp add: readUserInfoClaims_def)

theorem readUserInfoClaims_from_payload_witness:
  "getClaim guestUserInfo ''given_name'' = Inr ''Guest''
   \<and> getClaim guestUserInfo ''family_name'' = Inr ''User''
   \<and> getClaim guestUserInfo ''email'' = Inr ''guestuser@mycompany.com''
   \<and> readUserInfoClaims guestUserInfo =
        Inr \<lparr>givenName = ''Guest'', familyName = ''User'', email = ''guestuser@mycompany.com''\<rparr>
   \<and> readUserInfoClaims (payloadOf ((''sub'', guestUserId) # 
          [(''given_name'', ''Guest''), (''family_name'', ''User''),
           (''email'', ''guestuser@mycompany.com'')]))
        = readUserInfoClaims guestUserInfo"
proof -
  note inst = readUserInfoClaims_from_payload [OF guestUserInfo_claims]
  let ?d = "payloadOf ((''sub'', guestUserId) # 
          [(''given_name'', ''Guest''), (''family_name'', ''User''),
           (''email'', ''guestuser@mycompany.com'')])"
  have same: "getClaim ?d ''given_name'' = getClaim guestUserInfo ''given_name''
       \<and> getClaim ?d ''family_name'' = getClaim guestUserInfo ''family_name''
       \<and> getClaim ?d ''email'' = getClaim guestUserInfo ''email''"
    by (simp add: guestUserInfo_claims) (simp add: payloadOf_def getClaim_def)
  have a: "readUserInfoClaims guestUserInfo =
        Inr \<lparr>givenName = ''Guest'', familyName = ''User'', email = ''guestuser@mycompany.com''\<rparr>"
    using inst by (rule conjunct1)
  have "\<forall>data'. getClaim data' ''given_name'' = getClaim guestUserInfo ''given_name''
                  \<and> getClaim data' ''family_name'' = getClaim guestUserInfo ''family_name''
                  \<and> getClaim data' ''email'' = getClaim guestUserInfo ''email''
               \<longrightarrow> readUserInfoClaims data' = readUserInfoClaims guestUserInfo"
    using inst by (rule conjunct2)
  then have "getClaim ?d ''given_name'' = getClaim guestUserInfo ''given_name''
                  \<and> getClaim ?d ''family_name'' = getClaim guestUserInfo ''family_name''
                  \<and> getClaim ?d ''email'' = getClaim guestUserInfo ''email''
               \<longrightarrow> readUserInfoClaims ?d = readUserInfoClaims guestUserInfo" ..
  then have b: "readUserInfoClaims ?d = readUserInfoClaims guestUserInfo"
    using same ..
  show ?thesis using guestUserInfo_claims a b by (intro conjI)
qed

section \<open>Composing the claims\<close>

lemma readBaseClaims_guestToken:
  "readBaseClaims guestToken =
     Inr \<lparr>subject = guestUserId,
          scopes = [''openid'', ''profile'', ''https://api.authsamples.com/investments''],
          expiry = Num 1700000030\<rparr>"
  by (simp add: readBaseClaims_def guestToken_claims parse_exp split_scope)

lemma issuedToken_claims:
  "getClaim issuedToken ''sub'' = Inr guestUserId"
  "getClaim issuedToken ''scope'' = Inr guestScope"
  "getClaim issuedToken ''exp'' = Inr ''1700000030''"
  by (simp_all add: issuedToken_def payloadOf_def getClaim_def)

lemma readBaseClaims_issuedToken: "readBaseClaims issuedToken = readBaseClaims guestToken"
  by (simp add: readBaseClaims_def guestToken_claims issuedToken_claims)

lemma readUserInfoClaims_guestUserInfo:
  "readUserInfoClaims guestUserInfo =
     Inr \<lparr>givenName = ''Guest'', familyName = ''User'', email = ''guestuser@mycompany.com''\<rparr>"
  by (simp add: readUserInfoClaims_def guestUserInfo_claims)

lemma snd_supplyClaims:
  "snd (supplyClaims supplier tokenData userInfoData s) = snd (supplier tokenData userInfoData s)"
  by (simp add: supplyClaims_def split: prod.splits sum.splits)

text \<open>
  C2: when the supplier returns custom claims and both payloads can be read,
  \<open>supplyClaims\<close> returns the \<open>ApiClaims\<close> made of exactly the base claims read from the
  token payload, the user info claims read from the user info payload and the custom
  claims of the supplier, and leaves the world as the supplier left it (it performs no
  access of its own); its result depends on nothing but these three parts.
\<close>

theorem supplyClaims_composes:
  assumes "supplier tokenData userInfoData s = (Inr c, s')"
    and "readBaseClaims tokenData = Inr b"
    and "readUserInfoClaims userInfoData = Inr u"
  shows "supplyClaims supplier tokenData userInfoData s
           = (Inr \<lparr>token = b, userInfo = u, custom = c\<rparr>, s')
         \<and> (\<forall>supplier2 tokenData2 userInfoData2 s2.
               supplier2 tokenData2 userInfoData2 s2 = supplier tokenData userInfoData s
               \<and> readBaseClaims tokenData2 = readBaseClaims tokenData
               \<and> readUserInfoClaims userInfoData2 = readUserInfoClaims userInfoData
             \<longrightarrow> supplyClaims supplier2 tokenData2 userInfoData2 s2
                   = supplyClaims supplier tokenData userInfoData s)"
  using assms by (simp add: supplyClaims_def)

theorem supplyClaims_composes_witness:
  "supplyCustomClaims guestToken guestUserInfo () = (Inr (CustomClaims []), ())
   \<and> supplyClaims supplyCustomClaims guestToken guestUserInfo ()
       = (Inr \<lparr>token = \<lparr>subject = guestUserId,
                         scopes = [''openid'', ''profile'', ''https://api.authsamples.com/investments''],
                         expiry = Num 1700000030\<rparr>,
               userInfo = \<lparr>givenName = ''Guest'', familyName = ''User'',
                            email = ''guestuser@mycompany.com''\<rparr>,
               custom = CustomClaims []\<rparr>, ())
   \<and> supplyClaims supplyCustomClaims issuedToken guestUserInfo ()
       = supplyClaims supplyCustomClaims guestToken guestUserInfo ()"
proof -
  have h: "(supplyCustomClaims :: (string, unit) CustomClaimsSupplier) guestToken guestUserInfo ()
             = (Inr (CustomClaims []), ())"
    by (simp add: supplyCustomClaims_def)
  note inst = supplyClaims_composes
    [where supplier = "supplyCustomClaims :: (string, unit) CustomClaimsSupplier"
       and tokenData = guestToken and userInfoData = guestUserInfo and s = "()",
     OF h readBaseClaims_guestToken readUserInfoClaims_guestUserInfo]
  have a: "supplyClaims supplyCustomClaims guestToken guestUserInfo ()
       = (Inr \<lparr>token = \<lparr>subject = guestUserId,
                         scopes = [''openid'', ''profile'', ''https://api.authsamples.com/investments''],
                         expiry = Num 1700000030\<rparr>,
               userInfo = \<lparr>givenName = ''Guest'', familyName = ''User'',
                            email = ''guestuser@mycompany.com''\<rparr>,
               custom = CustomClaims []\<rparr>, ())"
    using inst by (rule conjunct1)
  have same: "(supplyCustomClaims :: (string, unit) CustomClaimsSupplier) issuedToken guestUserInfo ()
                 = supplyCustomClaims guestToken guestUserInfo ()
              \<and> readBaseClaims issuedToken = readBaseClaims guestToken
              \<and> readUserInfoClaims guestUserInfo = readUserInfoClaims guestUserInfo"
    by (simp add: supplyCustomClaims_def readBaseClaims_issuedToken)
  have "\<forall>(supplier2 :: (string, unit) CustomClaimsSupplier) tokenData2 userInfoData2 s2.
               supplier2 tokenData2 userInfoData2 s2 = supplyCustomClaims guestToken guestUserInfo ()
               \<and> readBaseClaims tokenData2 = readBaseClaims guestToken
               \<and> readUserInfoClaims userInfoData2 = readUserInfoClaims guestUserInfo
             \<longrightarrow> supplyClaims supplier2 tokenData2 userInfoData2 s2
                   = supplyClaims supplyCustomClaims guestToken guestUserInfo ()"
    using inst by (rule conjunct2)
  then have b: "supplyClaims supplyCustomClaims issuedToken guestUserInfo ()
       = supplyClaims supplyCustomClaims guestToken guestUserInfo ()"
    using same by blast
  show ?thesis using h a b by (intro conjI)
qed

text \<open>
  C6: the default \<open>supplyCustomClaims\<close> returns an empty \<open>CustomClaims\<close> for every pair of
  payloads and leaves the world as it was; and \<open>supplyClaims\<close> calls its supplier exactly
  once: a supplier that counts its calls has counted one more when \<open>supplyClaims\<close> ends,
  whatever the supplier and the payloads do.
\<close>

theorem supplyCustomClaims_default_once:
  "supplyCustomClaims tokenData userInfoData s = (Inr (CustomClaims []), s)
   \<and> snd (snd (supplyClaims (counted supplier) tokenData userInfoData (s, n))) = Suc n"
  by (simp add: supplyCustomClaims_def snd_supplyClaims counted_def split: prod.splits)

section \<open>Error codes\<close>

text \<open>
  C5: the code the caller sees is the string that \<open>BaseErrorCodes\<close> declares:
  \<open>unauthorized\<close> for an \<open>UnauthorizedError\<close>, \<open>server_error\<close> for a
  \<open>DependencyError\<close>, \<open>exception_simulation\<close> for the simulated exception; none of the
  three kinds gets another declared code.
\<close>

theorem externalCode_BaseErrorCodes:
  "externalCode UnauthorizedError = BaseErrorCodes_unauthorizedRequest
   \<and> BaseErrorCodes_unauthorizedRequest = ''unauthorized''
   \<and> externalCode DependencyError = BaseErrorCodes_serverError
   \<and> BaseErrorCodes_serverError = ''server_error''
   \<and> externalCode SimulatedException = BaseErrorCodes_exceptionSimulation
   \<and> BaseErrorCodes_exceptionSimulation = ''exception_simulation''
   \<and> (\<forall>k. externalCode k \<noteq> BaseErrorCodes_claimsFailure
          \<and> externalCode k \<noteq> BaseErrorCodes_insufficientScope)"
proof -
  have "externalCode k \<noteq> BaseErrorCodes_claimsFailure
          \<and> externalCode k \<noteq> BaseErrorCodes_insufficientScope" for k
    by (cases k) (simp_all add: BaseErrorCodes_claimsFailure_def BaseErrorCodes_insufficientScope_def)
  then show ?thesis
    by (simp add: BaseErrorCodes_unauthorizedRequest_def BaseErrorCodes_serverError_def
        BaseErrorCodes_exceptionSimulation_def)
qed

section \<open>The cache of the composition root\<close>

text \<open>
  C3: \<open>_createOAuthCache\<close> returns the \<open>AwsCache\<close> built from the cache configuration
  and the claims provider in every environment. In particular, running locally
  (\<open>IS_LOCAL\<close> is \<open>true\<close>) it does not return the development cache.
\<close>

theorem createOAuthCache_ignores_environment:
  "createOAuthCache env root = AwsCache (cacheConfiguration root) (claimsProvider root)
   \<and> isLocal [''IS_LOCAL'' \<mapsto> ''true'']
   \<and> createOAuthCache [''IS_LOCAL'' \<mapsto> ''true'']
         (withClaimsProvider (Ref 0) (Ref 1) (newBaseCompositionRoot []))
        = AwsCache (Ref 1) (Ref 0)
   \<and> createOAuthCache [''IS_LOCAL'' \<mapsto> ''true'']
         (withClaimsProvider (Ref 0) (Ref 1) (newBaseCompositionRoot []))
        \<noteq> DevelopmentCache"
  by (simp add: createOAuthCache_def isLocal_def newBaseCompositionRoot_def
      withClaimsProvider_def)

section \<open>The guard of the API operation\<close>

lemma enrichApiOperation_parts:
  assumes "before exceptionMiddleware = None" and "after exceptionMiddleware = None"
  shows "beforeMiddlewares
           (enrichApiOperation (cors incomingOrigin origins) exceptionMiddleware operation) = []"
    and "afterMiddlewares
           (enrichApiOperation (cors incomingOrigin origins) exceptionMiddleware operation)
          = [addCorsHeaders incomingOrigin origins]"
    and "handlerFunction
           (enrichApiOperation (cors incomingOrigin origins) exceptionMiddleware operation)
          = apiOperationFunction operation"
  using assms by (simp_all add: enrichApiOperation_def middy_use_def middy_def cors_def)

lemma addCorsHeaders_undefined:
  "h_response h = JUndefined \<Longrightarrow>
     addCorsHeaders incomingOrigin origins h =
       (h\<lparr>h_response :=
            (if httpMethod (h_event h) = None then JUndefined
             else JObject [(''headers'',
                    JObject [(''Access-Control-Allow-Origin'',
                      JString (getOrigin (incomingOrigin (h_event h)) origins))])])\<rparr>,
        Next (h_error h))"
  by (cases "httpMethod (h_event h)") (simp_all add: addCorsHeaders_def setProperty_def)

lemma invokeHandler_world:
  assumes "beforeMiddlewares instance = []"
  shows "snd (invokeHandler instance event context s)
           = snd (handlerFunction instance event context s)"
  using assms by (simp add: invokeHandler_def split: prod.splits sum.splits option.splits)

lemma apiOperationFunction_counted:
  "snd (apiOperationFunction (counted operation) event context (s, n))
     = (if truthy (claims event) then (snd (operation event context s), Suc n) else (s, n))"
  by (simp add: apiOperationFunction_def counted_def split: prod.splits)

text \<open>
  C9, as amended: with middy's cors middleware and an exception middleware that has an
  \<open>onError\<close> hook only, the handler that \<open>enrichApiOperation\<close> produces invokes the
  operation exactly when \<open>event.claims\<close> is truthy, and then once. With falsy claims it
  raises nothing, does not invoke the operation and leaves the world as it was; what
  it returns is \<open>undefined\<close> for an event without \<open>httpMethod\<close> and, for an HTTP event,
  the object with the CORS headers that the \<open>after\<close> hook of cors makes of the
  undefined result.
\<close>

theorem enrichApiOperation_guard:
  assumes "before exceptionMiddleware = None"
    and "after exceptionMiddleware = None"
    and "run = invokeHandler
                 (enrichApiOperation (cors incomingOrigin origins) exceptionMiddleware
                    (counted operation))
                 event ctx (s, n)"
  shows "(truthy (claims event) \<longrightarrow>
            snd run = (snd (operation event ctx s), Suc n))
       \<and> (\<not> truthy (claims event) \<longrightarrow>
            snd run = (s, n)
          \<and> snd (fst run) =
              Inr (if httpMethod event = None then JUndefined
                   else JObject [(''headers'',
                          JObject [(''Access-Control-Allow-Origin'',
                            JString (getOrigin (incomingOrigin event) origins))])]))"
proof -
  note parts = enrichApiOperation_parts
    [OF assms(1) assms(2), of incomingOrigin origins "counted operation"]
  have world: "snd run = (if truthy (claims event)
                            then (snd (operation event ctx s), Suc n) else (s, n))"
    unfolding assms(3) invokeHandler_world [OF parts(1)] parts(3)
    by (rule apiOperationFunction_counted)
  have result: "snd (fst run) =
              Inr (if httpMethod event = None then JUndefined
                   else JObject [(''headers'',
                          JObject [(''Access-Control-Allow-Origin'',
                            JString (getOrigin (incomingOrigin event) origins))])])"
    if "\<not> truthy (claims event)"
    unfolding assms(3) using that
    by (simp add: invokeHandler_def parts apiOperationFunction_def addCorsHeaders_undefined)
  from world result show ?thesis by simp
qed

lemma testExceptionMiddleware_hooks:
  "before testExceptionMiddleware = None" "after testExceptionMiddleware = None"
  by (simp_all add: testExceptionMiddleware_def)

lemma testOperation_result: "testOperation ev () () = (Inr (JString ''done''), ())"
  by (simp add: testOperation_def)

lemma test_events:
  "claims (eventWithClaims c) = c" "httpMethod (eventWithClaims c) = Some ''GET''"
  "originHeader (eventWithClaims c) = None"
  "claims (plainEventWithClaims c) = c" "httpMethod (plainEventWithClaims c) = None"
  by (simp_all add: eventWithClaims_def plainEventWithClaims_def originHeader_def)

lemma test_origin: "getOrigin None trustedOrigins = ''https://web.mycompany.com''"
  by (simp add: getOrigin_def trustedOrigins_def)

theorem enrichApiOperation_guard_witness:
  "before testExceptionMiddleware = None
   \<and> after testExceptionMiddleware = None
   \<and> truthy (claims (eventWithClaims (JObject [(''sub'', JString guestUserId)])))
   \<and> snd (invokeHandler
            (enrichApiOperation (cors originHeader trustedOrigins) testExceptionMiddleware
               (counted testOperation))
            (eventWithClaims (JObject [(''sub'', JString guestUserId)])) () ((), 0))
       = ((), 1)
   \<and> \<not> truthy (claims (eventWithClaims JUndefined))
   \<and> invokeHandler
        (enrichApiOperation (cors originHeader trustedOrigins) testExceptionMiddleware
           (counted testOperation))
        (eventWithClaims JUndefined) () ((), 0)
       = (([LogText ''*** DEBUG: RUNNING OPERATION'', LogText ''*** DEBUG: context'',
            LogContext (), LogText ''*** DEBUG: event claims'', LogValue JUndefined],
           Inr (JObject [(''headers'',
                  JObject [(''Access-Control-Allow-Origin'',
                    JString ''https://web.mycompany.com'')])])),
          ((), 0))
   \<and> \<not> truthy (claims (plainEventWithClaims JNull))
   \<and> snd (fst (invokeHandler
            (enrichApiOperation (cors originHeader trustedOrigins) testExceptionMiddleware
               (counted testOperation))
            (plainEventWithClaims JNull) () ((), 0)))
       = Inr JUndefined"
proof -
  have t: "truthy (claims (eventWithClaims (JObject [(''sub'', JString guestUserId)])))"
    by (simp add: test_events)
  have f: "\<not> truthy (claims (eventWithClaims JUndefined))"
    "\<not> truthy (claims (plainEventWithClaims JNull))"
    by (simp_all add: test_events)
  note a = enrichApiOperation_guard [OF testExceptionMiddleware_hooks refl,
    where incomingOrigin = originHeader and origins = trustedOrigins
      and operation = testOperation
      and event = "eventWithClaims (JObject [(''sub'', JString guestUserId)])"
      and ctx = "()" and s = "()" and n = 0]
  note b = enrichApiOperation_guard [OF testExceptionMiddleware_hooks refl,
    where incomingOrigin = originHeader and origins = trustedOrigins
      and operation = testOperation and event = "eventWithClaims JUndefined"
      and ctx = "()" and s = "()" and n = 0]
  note c = enrichApiOperation_guard [OF testExceptionMiddleware_hooks refl,
    where incomingOrigin = originHeader and origins = trustedOrigins
      and operation = testOperation and event = "plainEventWithClaims JNull"
      and ctx = "()" and s = "()" and n = 0]
  have r1: "snd (invokeHandler
            (enrichApiOperation (cors originHeader trustedOrigins) testExceptionMiddleware
               (counted testOperation))
            (eventWithClaims (JObject [(''sub'', JString guestUserId)])) () ((), 0))
       = ((), 1)"
    using a t by (simp add: testOperation_result)
  have logs: "fst (fst (invokeHandler
            (enrichApiOperation (cors originHeader trustedOrigins) testExceptionMiddleware
               (counted testOperation))
            (eventWithClaims JUndefined) () ((), 0)))
       = [LogText ''*** DEBUG: RUNNING OPERATION'', LogText ''*** DEBUG: context'',
            LogContext (), LogText ''*** DEBUG: event claims'', LogValue JUndefined]"
    by (simp add: invokeHandler_def enrichApiOperation_parts [OF testExceptionMiddleware_hooks]
        apiOperationFunction_def test_events addCorsHeaders_undefined)
  have r2: "invokeHandler
        (enrichApiOperation (cors originHeader trustedOrigins) testExceptionMiddleware
           (counted testOperation))
        (eventWithClaims JUndefined) () ((), 0)
       = (([LogText ''*** DEBUG: RUNNING OPERATION'', LogText ''*** DEBUG: context'',
            LogContext (), LogText ''*** DEBUG: event claims'', LogValue JUndefined],
           Inr (JObject [(''headers'',
                  JObject [(''Access-Control-Allow-Origin'',
                    JString ''https://web.mycompany.com'')])])),
          ((), 0))"
    using b f(1) logs by (simp add: test_events test_origin prod_eq_iff)
  have r3: "snd (fst (invokeHandler
            (enrichApiOperation (cors originHeader trustedOrigins) testExceptionMiddleware
               (counted testOperation))
            (plainEventWithClaims JNull) () ((), 0)))
       = Inr JUndefined"
    using c f(2) by (simp add: test_events)
  show ?thesis
    using testExceptionMiddleware_hooks t f r1 r2 r3 by (intro conjI)
qed

text \<open>
  The handler does not return \<open>undefined\<close> whenever the claims are absent: for an HTTP
  request without claims it returns the object that holds the CORS headers.
\<close>

theorem enrichApiOperation_undefined_counterexample:
  "\<not> truthy (claims (eventWithClaims JUndefined))
   \<and> snd (fst (invokeHandler
            (enrichApiOperation (cors originHeader trustedOrigins) testExceptionMiddleware
               testOperation)
            (eventWithClaims JUndefined) () ()))
       = Inr (JObject [(''headers'',
                JObject [(''Access-Control-Allow-Origin'',
                  JString ''https://web.mycompany.com'')])])
   \<and> snd (fst (invokeHandler
            (enrichApiOperation (cors originHeader trustedOrigins) testExceptionMiddleware
               testOperation)
            (eventWithClaims JUndefined) () ()))
       \<noteq> Inr JUndefined"
  by (simp add: invokeHandler_def enrichApiOperation_parts [OF testExceptionMiddleware_hooks]
      apiOperationFunction_def test_events addCorsHeaders_undefined test_origin)

section \<open>The company id of the transactions handler\<close>

text \<open>
  C4: for an event with path parameters, when \<open>parseInt(id, 10)\<close> is \<open>NaN\<close> or at most
  zero the handler raises the client error with status 400 and code \<open>invalidCompanyId\<close>,
  carrying its message, and has neither resolved nor invoked the service (the trace and
  the world are untouched). Otherwise, and so for every id that parses to a positive
  integer, the service is resolved and then invoked, once each, with the number that
  \<open>parseInt\<close> returned (for the decimal numeral of a positive \<open>n\<close> below \<open>2^53\<close>, with
  \<open>n\<close>; for a numeral from \<open>2^1024\<close> on, with \<open>Infinity\<close>); the result it returns is answered with status 200, and an error that the
  container or the service raises is raised by the handler.
\<close>

theorem baseHandler_validates_id:
  assumes "pathParameters event = Some params"
    and "ident = parseInt10 (toStringArg (map_of params ''id''))"
    and "run = baseHandler (tracedGet containerGet) (tracedInvoke getCompanyTransactions)
                 event (s, tr)"
  shows "(isNaN ident \<or> leZero ident \<longrightarrow>
            run = (Inl (Client (ClientError 400 invalidCompanyId
                     ''The company id must be a positive numeric integer'')), (s, tr)))
       \<and> (\<forall>n. ident = Num n \<and> 0 < n \<longrightarrow> \<not> (isNaN ident \<or> leZero ident))
       \<and> (\<forall>n. map_of params ''id'' = Some (decimal n) \<and> 0 < n \<and> n < 2 ^ 53 \<longrightarrow>
              ident = Num (int n))
       \<and> (\<forall>n. map_of params ''id'' = Some (decimal n) \<and> 2 ^ 1024 \<le> n \<longrightarrow>
              ident = PosInfinity \<and> \<not> (isNaN ident \<or> leZero ident))
       \<and> (\<not> (isNaN ident \<or> leZero ident) \<longrightarrow>
            (\<forall>e s1. containerGet s = (Inl e, s1) \<longrightarrow>
               run = (Inl (Raised e), (s1, tr @ [Resolved])))
          \<and> (\<forall>service s1. containerGet s = (Inr service, s1) \<longrightarrow>
               (\<forall>companies s2.
                  getCompanyTransactions service ident s1 = (Inr companies, s2) \<longrightarrow>
                    run = (Inr (ObjectResponse 200 companies),
                           (s2, tr @ [Resolved, Invoked ident])))
             \<and> (\<forall>e s2.
                  getCompanyTransactions service ident s1 = (Inl e, s2) \<longrightarrow>
                    run = (Inl (Raised e), (s2, tr @ [Resolved, Invoked ident])))))"
proof -
  have bad: "run = (Inl (Client (ClientError 400 invalidCompanyId
                     ''The company id must be a positive numeric integer'')), (s, tr))"
    if "isNaN ident \<or> leZero ident"
    using that assms by (simp add: baseHandler_def createClientError_def Let_def)
  have pos: "\<not> (isNaN ident \<or> leZero ident)" if "ident = Num n \<and> 0 < n" for n
    using that by (simp add: isNaN_def leZero_def)
  have dec: "ident = Num (int n)"
    if "map_of params ''id'' = Some (decimal n) \<and> 0 < n \<and> n < 2 ^ 53" for n
    using that assms(2) by (simp add: toStringArg_def parseInt10_decimal_exact)
  have inf: "ident = PosInfinity \<and> \<not> (isNaN ident \<or> leZero ident)"
    if "map_of params ''id'' = Some (decimal n) \<and> 2 ^ 1024 \<le> n" for n
  proof -
    from that assms(2) have "ident = PosInfinity"
      by (simp only: toStringArg_def option.case parseInt10_decimal_infinite)
    then show ?thesis by (simp add: isNaN_def leZero_def)
  qed
  have nores: "run = (Inl (Raised e), (s1, tr @ [Resolved]))"
    if "\<not> (isNaN ident \<or> leZero ident)" "containerGet s = (Inl e, s1)" for e s1
    using that assms(1) assms(2) [symmetric] unfolding assms(3)
    by (simp add: baseHandler_def Let_def tracedGet_def)
  have ok: "run = (Inr (ObjectResponse 200 companies), (s2, tr @ [Resolved, Invoked ident]))"
    if "\<not> (isNaN ident \<or> leZero ident)" "containerGet s = (Inr service, s1)"
      "getCompanyTransactions service ident s1 = (Inr companies, s2)"
    for service s1 companies s2
    using that assms(1) assms(2) [symmetric] unfolding assms(3)
    by (simp add: baseHandler_def Let_def tracedGet_def tracedInvoke_def objectResponse_def)
  have raised: "run = (Inl (Raised e), (s2, tr @ [Resolved, Invoked ident]))"
    if "\<not> (isNaN ident \<or> leZero ident)" "containerGet s = (Inr service, s1)"
      "getCompanyTransactions service ident s1 = (Inl e, s2)"
    for service s1 e s2
    using that assms(1) assms(2) [symmetric] unfolding assms(3)
    by (simp add: baseHandler_def Let_def tracedGet_def tracedInvoke_def)
  from bad pos dec inf nores ok raised show ?thesis by blast
qed

lemma parseInt10_examples:
  "parseInt10 ''abc'' = NaN"
  "parseInt10 ''2'' = Num 2"
  "parseInt10 ''3'' = Num 3"
  "parseInt10 ''-5'' = Num (- 5)"
  "parseInt10 ''-0'' = NegZero"
  "parseInt10 ''undefined'' = NaN"
  by (simp_all add: parse_defs)

lemma eventWithId_parameters: "pathParameters (eventWithId i) = Some [(''id'', i)]"
  by (simp add: eventWithId_def)

lemma test_ids:
  "parseInt10 (toStringArg (map_of [(''id'', ''abc'')] ''id'')) = NaN"
  "parseInt10 (toStringArg (map_of [(''id'', ''2'')] ''id'')) = Num 2"
  "parseInt10 (toStringArg (map_of [(''id'', ''3'')] ''id'')) = Num 3"
  "parseInt10 (toStringArg (map_of [(''id'', ''9007199254740993'')] ''id''))
     = Num 9007199254740992"
  by (simp_all add: toStringArg_def parseInt10_examples parse_far)

lemma test_service:
  "testContainerGet () = (Inr (), ())"
  "failingContainerGet () = (Inl ''No matching bindings found'', ())"
  "testGetCompanyTransactions () (Num 2) () = (Inr ''transactions of company 2'', ())"
  "testGetCompanyTransactions () (Num 3) () = (Inl ''company_not_found'', ())"
  "testGetCompanyTransactions () (Num 9007199254740992) () = (Inl ''company_not_found'', ())"
  by (simp_all add: testContainerGet_def failingContainerGet_def
      testGetCompanyTransactions_def)

theorem baseHandler_validates_id_witness:
  "pathParameters (eventWithId ''abc'') = Some [(''id'', ''abc'')]
   \<and> isNaN (parseInt10 (toStringArg (map_of [(''id'', ''abc'')] ''id'')))
   \<and> baseHandler (tracedGet testContainerGet) (tracedInvoke testGetCompanyTransactions)
        (eventWithId ''abc'') ((), [])
      = (Inl (Client (ClientError 400 invalidCompanyId
            ''The company id must be a positive numeric integer'')), ((), []))
   \<and> pathParameters (eventWithId ''2'') = Some [(''id'', ''2'')]
   \<and> parseInt10 (toStringArg (map_of [(''id'', ''2'')] ''id'')) = Num 2
   \<and> baseHandler (tracedGet testContainerGet) (tracedInvoke testGetCompanyTransactions)
        (eventWithId ''2'') ((), [])
      = (Inr (ObjectResponse 200 ''transactions of company 2''), ((), [Resolved, Invoked (Num 2)]))
   \<and> baseHandler (tracedGet testContainerGet) (tracedInvoke testGetCompanyTransactions)
        (eventWithId ''3'') ((), [])
      = (Inl (Raised ''company_not_found''), ((), [Resolved, Invoked (Num 3)]))
   \<and> baseHandler (tracedGet failingContainerGet) (tracedInvoke testGetCompanyTransactions)
        (eventWithId ''2'') ((), [])
      = (Inl (Raised ''No matching bindings found''), ((), [Resolved]))
   \<and> baseHandler (tracedGet testContainerGet) (tracedInvoke testGetCompanyTransactions)
        (eventWithId ''9007199254740993'') ((), [])
      = (Inl (Raised ''company_not_found''),
         ((), [Resolved, Invoked (Num 9007199254740992)]))
   \<and> baseHandler (tracedGet testContainerGet) (tracedInvoke testGetCompanyTransactions)
        (eventWithId (decimal (2 ^ 1024))) ((), [])
      = (Inl (Raised ''company_not_found''), ((), [Resolved, Invoked PosInfinity]))"
proof -
  note p = eventWithId_parameters
  note a = baseHandler_validates_id
    [where containerGet = testContainerGet and getCompanyTransactions = testGetCompanyTransactions
       and s = "()" and tr = "[]", OF p [of "''abc''"] test_ids(1) [symmetric] refl]
  note b = baseHandler_validates_id
    [where containerGet = testContainerGet and getCompanyTransactions = testGetCompanyTransactions
       and s = "()" and tr = "[]", OF p [of "''2''"] test_ids(2) [symmetric] refl]
  note c = baseHandler_validates_id
    [where containerGet = testContainerGet and getCompanyTransactions = testGetCompanyTransactions
       and s = "()" and tr = "[]", OF p [of "''3''"] test_ids(3) [symmetric] refl]
  note d = baseHandler_validates_id
    [where containerGet = failingContainerGet and getCompanyTransactions = testGetCompanyTransactions
       and s = "()" and tr = "[]", OF p [of "''2''"] test_ids(2) [symmetric] refl]
  note e = baseHandler_validates_id
    [where containerGet = testContainerGet and getCompanyTransactions = testGetCompanyTransactions
       and s = "()" and tr = "[]", OF p [of "''9007199254740993''"] test_ids(4) [symmetric] refl]
  have v: "\<not> (isNaN (Num 2) \<or> leZero (Num 2))" "\<not> (isNaN (Num 3) \<or> leZero (Num 3))"
    "\<not> (isNaN (Num 9007199254740992) \<or> leZero (Num 9007199254740992))"
    by (simp_all add: isNaN_def leZero_def)
  have r1: "baseHandler (tracedGet testContainerGet) (tracedInvoke testGetCompanyTransactions)
        (eventWithId ''abc'') ((), [])
      = (Inl (Client (ClientError 400 invalidCompanyId
            ''The company id must be a positive numeric integer'')), ((), []))"
    using a by (simp add: isNaN_def)
  have r2: "baseHandler (tracedGet testContainerGet) (tracedInvoke testGetCompanyTransactions)
        (eventWithId ''2'') ((), [])
      = (Inr (ObjectResponse 200 ''transactions of company 2''), ((), [Resolved, Invoked (Num 2)]))"
    using b v(1) test_service(1,3) by simp
  have r3: "baseHandler (tracedGet testContainerGet) (tracedInvoke testGetCompanyTransactions)
        (eventWithId ''3'') ((), [])
      = (Inl (Raised ''company_not_found''), ((), [Resolved, Invoked (Num 3)]))"
    using c v(2) test_service(1,4) by simp
  have r4: "baseHandler (tracedGet failingContainerGet) (tracedInvoke testGetCompanyTransactions)
        (eventWithId ''2'') ((), [])
      = (Inl (Raised ''No matching bindings found''), ((), [Resolved]))"
    using d v(1) test_service(2) by simp
  have r5: "baseHandler (tracedGet testContainerGet) (tracedInvoke testGetCompanyTransactions)
        (eventWithId ''9007199254740993'') ((), [])
      = (Inl (Raised ''company_not_found''),
         ((), [Resolved, Invoked (Num 9007199254740992)]))"
    using e v(3) test_service(1,5) by simp
  note f = baseHandler_validates_id
    [where containerGet = testContainerGet and getCompanyTransactions = testGetCompanyTransactions
       and s = "()" and tr = "[]", OF p [of "decimal (2 ^ 1024)"] refl refl]
  have huge: "map_of [(''id'', decimal (2 ^ 1024))] ''id'' = Some (decimal (2 ^ 1024))
                \<and> (2 :: nat) ^ 1024 \<le> 2 ^ 1024"
    by simp
  from f have "\<forall>n. map_of [(''id'', decimal (2 ^ 1024))] ''id'' = Some (decimal n)
                    \<and> 2 ^ 1024 \<le> n \<longrightarrow>
                 parseInt10 (toStringArg (map_of [(''id'', decimal (2 ^ 1024))] ''id''))
                   = PosInfinity
                 \<and> \<not> (isNaN (parseInt10 (toStringArg (map_of [(''id'', decimal (2 ^ 1024))] ''id'')))
                       \<or> leZero (parseInt10 (toStringArg (map_of [(''id'', decimal (2 ^ 1024))] ''id''))))"
    by (elim conjE)
  then have imp6: "map_of [(''id'', decimal (2 ^ 1024))] ''id'' = Some (decimal (2 ^ 1024))
                    \<and> (2 :: nat) ^ 1024 \<le> 2 ^ 1024 \<longrightarrow>
                 parseInt10 (toStringArg (map_of [(''id'', decimal (2 ^ 1024))] ''id''))
                   = PosInfinity
                 \<and> \<not> (isNaN (parseInt10 (toStringArg (map_of [(''id'', decimal (2 ^ 1024))] ''id'')))
                       \<or> leZero (parseInt10 (toStringArg (map_of [(''id'', decimal (2 ^ 1024))] ''id''))))" ..
  from mp [OF imp6 huge]
  have i6: "parseInt10 (toStringArg (map_of [(''id'', decimal (2 ^ 1024))] ''id''))
                   = PosInfinity"
    by (rule conjunct1)
  have s6: "testGetCompanyTransactions () PosInfinity () = (Inl ''company_not_found'', ())"
    by (simp add: testGetCompanyTransactions_def)
  have v6: "\<not> (isNaN PosInfinity \<or> leZero PosInfinity)"
    by (simp add: isNaN_def leZero_def)
  have r6: "baseHandler (tracedGet testContainerGet) (tracedInvoke testGetCompanyTransactions)
        (eventWithId (decimal (2 ^ 1024))) ((), [])
      = (Inl (Raised ''company_not_found''), ((), [Resolved, Invoked PosInfinity]))"
    using f v6 s6 test_service(1) unfolding i6 by simp
  show ?thesis
    using p [of "''abc''"] p [of "''2''"] test_ids(1,2) r1 r2 r3 r4 r5 r6
    by (simp only: isNaN_def simp_thms)
qed

section \<open>Reading a JSON file\<close>

text \<open>
  C10: \<open>readData\<close> either returns what \<open>JSON.parse\<close> made of the contents of the file, or
  raises a server error with code \<open>fileReadError\<close> and message
  \<open>Problem encountered reading data\<close> whose details are the message of the underlying
  exception when that is an \<open>Error\<close>, and the exception value otherwise. Nothing else
  leaves \<open>readData\<close>.
\<close>

theorem readData_result:
  "(\<exists>buffer v s'. readFile filePath s = (Inr buffer, s') \<and> json_parse buffer = Inr v
        \<and> readData readFile json_parse filePath s = (Inr v, s'))
   \<or> (\<exists>e s' err.
        (readFile filePath s = (Inl e, s')
           \<or> (\<exists>buffer. readFile filePath s = (Inr buffer, s') \<and> json_parse buffer = Inl e))
        \<and> readData readFile json_parse filePath s = (Inl err, s')
        \<and> errorCode err = fileReadError
        \<and> message err = ''Problem encountered reading data''
        \<and> details err =
            (case e of ErrorInstance msg st \<Rightarrow> JString msg | ThrownObject fs \<Rightarrow> JObject fs))"
proof -
  obtain r s' where rf: "readFile filePath s = (r, s')" by (cases "readFile filePath s")
  have c: "errorCode (readData_catch e) = fileReadError
        \<and> message (readData_catch e) = ''Problem encountered reading data''
        \<and> details (readData_catch e) =
            (case e of ErrorInstance msg st \<Rightarrow> JString msg | ThrownObject fs \<Rightarrow> JObject fs)" for e
    by (cases e) (simp_all add: readData_catch_def createServerError_def setDetails_def)
  show ?thesis
  proof (cases r)
    case (Inl e)
    then have "readData readFile json_parse filePath s = (Inl (readData_catch e), s')"
      using rf by (simp add: readData_def readData_try_def)
    then show ?thesis using rf Inl c [of e] by blast
  next
    case (Inr buffer)
    show ?thesis
    proof (cases "json_parse buffer")
      case (Inl e)
      then have "readData readFile json_parse filePath s = (Inl (readData_catch e), s')"
        using rf Inr by (simp add: readData_def readData_try_def)
      then show ?thesis using rf Inr Inl c [of e] by blast
    next
      case (Inr v)
      then have "readData readFile json_parse filePath s = (Inr v, s')"
        using rf \<open>r = Inr buffer\<close> by (simp add: readData_def readData_try_def)
      then show ?thesis using rf \<open>r = Inr buffer\<close> Inr by blast
    qed
  qed
qed

section \<open>The lifetime of the registered objects\<close>

lemma bindingsOf_append: "bindingsOf (c @ d) k = bindingsOf c k @ bindingsOf d k"
  by (simp add: bindingsOf_def)

lemma register_result:
  "register root h =
     (root\<lparr>container :=
        container root @
          [(BASETYPES_LogEntry, ToConstantValue (Ref (length h))),
           (BASETYPES_HttpProxy, ToConstantValue (httpProxy root)),
           (BASETYPES_BaseClaims, ToConstantValue (Ref (length h + 1))),
           (BASETYPES_UserInfoClaims, ToConstantValue (Ref (length h + 2))),
           (BASETYPES_CustomClaims, ToConstantValue (Ref (length h + 3))),
           (BASETYPES_OAuthConfiguration, ToConstantValue (oauthConfiguration root)),
           (BASETYPES_JwksRetriever, ToConstantValue (Ref (length h + 4))),
           (BASETYPES_AccessTokenRetriever, ToTransient AccessTokenRetriever),
           (BASETYPES_OAuthAuthenticator, ToTransient OAuthAuthenticator),
           (BASETYPES_JwtValidator, ToTransient JwtValidator)]\<rparr>,
      h @ [EmptyObject, EmptyObject, EmptyObject, EmptyObject,
           JwksRetriever (oauthConfiguration root) (httpProxy root)])"
  by (simp add: register_def registerBaseDependencies_def registerClaimsDependencies_def
      registerOAuthDependencies_def new_def container_bind_def)

lemma container_get_constant:
  "bindingsOf c k = [ToConstantValue v] \<Longrightarrow> container_get c k h = (Inr v, h)"
  by (simp add: container_get_def)

lemma container_get_transient:
  "bindingsOf c k = [ToTransient cls] \<Longrightarrow>
     container_get c k h = (Inr (Ref (length h)), h @ [Instance cls])"
  by (simp add: container_get_def new_def)

lemma container_get_extends: "container_get c k h = (r, h1) \<Longrightarrow> \<exists>ext. h1 = h @ ext"
  by (auto simp: container_get_def new_def split: list.splits Binding.splits)

lemma resolveAll_props:
  assumes jw: "bindingsOf c BASETYPES_JwksRetriever = [ToConstantValue (Ref j)]"
    and tr: "\<And>k cls. transientClass k = Some cls \<Longrightarrow> bindingsOf c k = [ToTransient cls]"
  shows "resolveAll c ks h = (rs, h2) \<Longrightarrow>
     length rs = length ks \<and> (\<exists>ext. h2 = h @ ext) \<and>
     (\<forall>i<length ks. ks ! i = BASETYPES_JwksRetriever \<longrightarrow> rs ! i = Inr (Ref j)) \<and>
     (\<forall>i<length ks. \<forall>cls. transientClass (ks ! i) = Some cls \<longrightarrow>
        (\<exists>r. rs ! i = Inr (Ref r) \<and> length h \<le> r \<and> r < length h2 \<and> h2 ! r = Instance cls))"
proof (induction ks arbitrary: h rs)
  case Nil
  then show ?case by simp
next
  case (Cons k ks)
  obtain r h1 where g: "container_get c k h = (r, h1)" by (cases "container_get c k h")
  obtain rs' h2' where t: "resolveAll c ks h1 = (rs', h2')" by (cases "resolveAll c ks h1")
  from Cons.prems g t have rs: "rs = r # rs'" and h2: "h2' = h2" by simp_all
  note IH = Cons.IH [OF t [unfolded h2]]
  from IH obtain ext' where e2: "h2 = h1 @ ext'" by blast
  from container_get_extends [OF g] obtain ext where e1: "h1 = h @ ext" by blast
  have len: "length rs = length (k # ks)" using rs IH by simp
  have pre: "\<exists>ext. h2 = h @ ext" using e1 e2 by simp
  have jwk: "rs ! i = Inr (Ref j)"
    if "i < length (k # ks)" "(k # ks) ! i = BASETYPES_JwksRetriever" for i
  proof (cases i)
    case 0
    with that have "k = BASETYPES_JwksRetriever" by simp
    then have "r = Inr (Ref j)" using g container_get_constant [OF jw, of h] by simp
    with 0 rs show ?thesis by simp
  next
    case (Suc i')
    with that IH rs show ?thesis by simp
  qed
  have trn: "\<exists>q. rs ! i = Inr (Ref q) \<and> length h \<le> q \<and> q < length h2 \<and> h2 ! q = Instance cls"
    if "i < length (k # ks)" "transientClass ((k # ks) ! i) = Some cls" for i cls
  proof (cases i)
    case 0
    with that have "transientClass k = Some cls" by simp
    then have "container_get c k h = (Inr (Ref (length h)), h @ [Instance cls])"
      using container_get_transient [OF tr] by simp
    with g have r: "r = Inr (Ref (length h))" and h1: "h1 = h @ [Instance cls]" by simp_all
    have "h2 ! length h = Instance cls" using e2 h1 by simp
    moreover have "length h < length h2" using e2 h1 by simp
    ultimately show ?thesis using 0 rs r by simp
  next
    case (Suc i')
    with that have "i' < length ks" "transientClass (ks ! i') = Some cls" by simp_all
    with IH obtain q where "rs' ! i' = Inr (Ref q)" "length h1 \<le> q" "q < length h2"
      "h2 ! q = Instance cls" by blast
    then show ?thesis using Suc rs e1 by simp
  qed
  from len pre jwk trn show ?case by blast
qed

lemma resolveAll_fresh:
  assumes jw: "bindingsOf c BASETYPES_JwksRetriever = [ToConstantValue (Ref j)]"
    and tr: "\<And>k cls. transientClass k = Some cls \<Longrightarrow> bindingsOf c k = [ToTransient cls]"
  shows "resolveAll c ks h = (rs, h2) \<Longrightarrow> a < b \<Longrightarrow> b < length ks \<Longrightarrow>
     transientClass (ks ! a) \<noteq> None \<Longrightarrow> transientClass (ks ! b) \<noteq> None \<Longrightarrow> rs ! a \<noteq> rs ! b"
proof (induction ks arbitrary: h rs a b)
  case Nil
  then show ?case by simp
next
  case (Cons k ks)
  obtain r h1 where g: "container_get c k h = (r, h1)" by (cases "container_get c k h")
  obtain rs' h2' where t: "resolveAll c ks h1 = (rs', h2')" by (cases "resolveAll c ks h1")
  from Cons.prems(1) g t have rs: "rs = r # rs'" and h2: "h2' = h2" by simp_all
  note t' = t [unfolded h2]
  from Cons.prems obtain b' where b: "b = Suc b'" "b' < length ks" by (cases b) auto
  from Cons.prems b obtain clsb where cb: "transientClass (ks ! b') = Some clsb" by auto
  from resolveAll_props [OF jw tr t'] b cb
  obtain q where q: "rs' ! b' = Inr (Ref q)" "length h1 \<le> q" by blast
  show ?case
  proof (cases a)
    case 0
    with Cons.prems obtain clsa where "transientClass k = Some clsa" by auto
    then have "container_get c k h = (Inr (Ref (length h)), h @ [Instance clsa])"
      using container_get_transient [OF tr] by simp
    with g have "r = Inr (Ref (length h))" "h1 = h @ [Instance clsa]" by simp_all
    with q 0 b rs show ?thesis by simp
  next
    case (Suc a')
    with Cons.prems b have "a' < b'" "transientClass (ks ! a') \<noteq> None"
      "transientClass (ks ! b') \<noteq> None" by simp_all
    from Cons.IH [OF t' this(1) b(2) this(2) this(3)] show ?thesis using Suc b rs by simp
  qed
qed

lemma register_bindings:
  assumes "bindingsOf (container root) k = []" and "register root h = (root', h')"
  shows "k = BASETYPES_JwksRetriever \<Longrightarrow>
           bindingsOf (container root') k = [ToConstantValue (Ref (length h + 4))]"
    and "transientClass k = Some cls \<Longrightarrow> bindingsOf (container root') k = [ToTransient cls]"
proof -
  have c: "container root' = container root @
          [(BASETYPES_LogEntry, ToConstantValue (Ref (length h))),
           (BASETYPES_HttpProxy, ToConstantValue (httpProxy root)),
           (BASETYPES_BaseClaims, ToConstantValue (Ref (length h + 1))),
           (BASETYPES_UserInfoClaims, ToConstantValue (Ref (length h + 2))),
           (BASETYPES_CustomClaims, ToConstantValue (Ref (length h + 3))),
           (BASETYPES_OAuthConfiguration, ToConstantValue (oauthConfiguration root)),
           (BASETYPES_JwksRetriever, ToConstantValue (Ref (length h + 4))),
           (BASETYPES_AccessTokenRetriever, ToTransient AccessTokenRetriever),
           (BASETYPES_OAuthAuthenticator, ToTransient OAuthAuthenticator),
           (BASETYPES_JwtValidator, ToTransient JwtValidator)]"
    using assms(2) unfolding register_result by auto
  show "k = BASETYPES_JwksRetriever \<Longrightarrow>
           bindingsOf (container root') k = [ToConstantValue (Ref (length h + 4))]"
    using assms(1) unfolding c bindingsOf_append by (simp add: bindingsOf_def)
  show "transientClass k = Some cls \<Longrightarrow> bindingsOf (container root') k = [ToTransient cls]"
    using assms(1) unfolding c bindingsOf_append
    by (cases k) (auto simp: bindingsOf_def)
qed

text \<open>
  C8: on a container that has no binding yet for the four OAuth identifiers,
  \<open>register\<close> constructs exactly one \<open>JwksRetriever\<close>, and in every later sequence of
  resolutions each resolution of \<open>BASETYPES.JwksRetriever\<close> returns that one instance,
  while each resolution of \<open>AccessTokenRetriever\<close>, \<open>OAuthAuthenticator\<close> or
  \<open>JwtValidator\<close> returns an instance of its class that did not exist before it, so
  that no two of them return the same instance.
\<close>

theorem register_lifetimes:
  assumes "\<forall>k \<in> {BASETYPES_JwksRetriever, BASETYPES_AccessTokenRetriever,
                    BASETYPES_OAuthAuthenticator, BASETYPES_JwtValidator}.
              bindingsOf (container root) k = []"
    and "register root h = (root', h')"
    and "resolveAll (container root') ks h' = (rs, h'')"
  shows "objectsOfJwksRetriever h' = Suc (objectsOfJwksRetriever h)
       \<and> (\<exists>j < length h'. length h \<le> j
            \<and> h'' ! j = JwksRetriever (oauthConfiguration root) (httpProxy root)
            \<and> (\<forall>i < length ks. ks ! i = BASETYPES_JwksRetriever \<longrightarrow> rs ! i = Inr (Ref j)))
       \<and> (\<forall>i < length ks. \<forall>cls. transientClass (ks ! i) = Some cls \<longrightarrow>
            (\<exists>r. rs ! i = Inr (Ref r) \<and> length h' \<le> r \<and> r < length h''
                  \<and> h'' ! r = Instance cls))
       \<and> (\<forall>a b. a < b \<and> b < length ks \<and> transientClass (ks ! a) \<noteq> None
                  \<and> transientClass (ks ! b) \<noteq> None \<longrightarrow> rs ! a \<noteq> rs ! b)"
proof -
  have h': "h' = h @ [EmptyObject, EmptyObject, EmptyObject, EmptyObject,
           JwksRetriever (oauthConfiguration root) (httpProxy root)]"
    using assms(2) unfolding register_result by simp
  have jw: "bindingsOf (container root') BASETYPES_JwksRetriever
              = [ToConstantValue (Ref (length h + 4))]"
    using register_bindings(1) [OF _ assms(2), of BASETYPES_JwksRetriever] assms(1) by simp
  have tr: "bindingsOf (container root') k = [ToTransient cls]"
    if "transientClass k = Some cls" for k cls
  proof -
    from that have "k \<in> {BASETYPES_JwksRetriever, BASETYPES_AccessTokenRetriever,
                    BASETYPES_OAuthAuthenticator, BASETYPES_JwtValidator}"
      by (cases k) simp_all
    with assms(1) have "bindingsOf (container root) k = []" by blast
    from register_bindings(2) [OF this assms(2) that] show ?thesis .
  qed
  note props = resolveAll_props [OF jw tr assms(3)]
  from props obtain ext where ext: "h'' = h' @ ext" by blast
  have one: "objectsOfJwksRetriever h' = Suc (objectsOfJwksRetriever h)"
    unfolding h' by (simp add: objectsOfJwksRetriever_def)
  have "length h + 4 < length h'" "length h \<le> length h + 4"
    "h'' ! (length h + 4) = JwksRetriever (oauthConfiguration root) (httpProxy root)"
    unfolding ext h' by (simp_all add: nth_append)
  with props have single: "\<exists>j < length h'. length h \<le> j
            \<and> h'' ! j = JwksRetriever (oauthConfiguration root) (httpProxy root)
            \<and> (\<forall>i < length ks. ks ! i = BASETYPES_JwksRetriever \<longrightarrow> rs ! i = Inr (Ref j))"
    by blast
  have fresh: "\<forall>a b. a < b \<and> b < length ks \<and> transientClass (ks ! a) \<noteq> None
                  \<and> transientClass (ks ! b) \<noteq> None \<longrightarrow> rs ! a \<noteq> rs ! b"
    using resolveAll_fresh [OF jw tr assms(3)] by blast
  from one single props fresh show ?thesis by blast
qed

lemma testRoot_fields:
  "container testRoot = []" "oauthConfiguration testRoot = Ref 0" "httpProxy testRoot = Null"
  by (simp_all add: testRoot_def useHttpProxy_def useOAuth_def newBaseCompositionRoot_def)

lemma register_testRoot:
  "container (fst (register testRoot testHeap)) =
     [(BASETYPES_LogEntry, ToConstantValue (Ref 1)),
      (BASETYPES_HttpProxy, ToConstantValue Null),
      (BASETYPES_BaseClaims, ToConstantValue (Ref 2)),
      (BASETYPES_UserInfoClaims, ToConstantValue (Ref 3)),
      (BASETYPES_CustomClaims, ToConstantValue (Ref 4)),
      (BASETYPES_OAuthConfiguration, ToConstantValue (Ref 0)),
      (BASETYPES_JwksRetriever, ToConstantValue (Ref 5)),
      (BASETYPES_AccessTokenRetriever, ToTransient AccessTokenRetriever),
      (BASETYPES_OAuthAuthenticator, ToTransient OAuthAuthenticator),
      (BASETYPES_JwtValidator, ToTransient JwtValidator)]"
  "snd (register testRoot testHeap) =
     [ExternalObject, EmptyObject, EmptyObject, EmptyObject, EmptyObject,
      JwksRetriever (Ref 0) Null]"
  by (simp_all add: register_result testRoot_fields) (simp_all add: testHeap_def)

lemma resolveAll_testRequests:
  "resolveAll (container (fst (register testRoot testHeap))) testRequests
      (snd (register testRoot testHeap))
   = ([Inr (Ref 5), Inr (Ref 6), Inr (Ref 5), Inr (Ref 7), Inr (Ref 8)],
      [ExternalObject, EmptyObject, EmptyObject, EmptyObject, EmptyObject,
       JwksRetriever (Ref 0) Null,
       Instance JwtValidator, Instance JwtValidator, Instance AccessTokenRetriever])"
  unfolding register_testRoot testRequests_def
  by (simp add: container_get_def bindingsOf_def new_def)

theorem register_lifetimes_witness:
  "bindingsOf (container testRoot) BASETYPES_JwksRetriever = []
   \<and> bindingsOf (container testRoot) BASETYPES_AccessTokenRetriever = []
   \<and> bindingsOf (container testRoot) BASETYPES_OAuthAuthenticator = []
   \<and> bindingsOf (container testRoot) BASETYPES_JwtValidator = []
   \<and> objectsOfJwksRetriever testHeap = 0
   \<and> objectsOfJwksRetriever (snd (register testRoot testHeap)) = 1
   \<and> fst (resolveAll (container (fst (register testRoot testHeap))) testRequests
             (snd (register testRoot testHeap)))
       = [Inr (Ref 5), Inr (Ref 6), Inr (Ref 5), Inr (Ref 7), Inr (Ref 8)]
   \<and> snd (register testRoot testHeap) ! 5 = JwksRetriever (Ref 0) Null"
proof -
  have h1: "\<forall>k \<in> {BASETYPES_JwksRetriever, BASETYPES_AccessTokenRetriever,
             BASETYPES_OAuthAuthenticator, BASETYPES_JwtValidator}.
       bindingsOf (container testRoot) k = []"
    by (simp add: testRoot_fields bindingsOf_def)
  have h2: "register testRoot testHeap
              = (fst (register testRoot testHeap), snd (register testRoot testHeap))"
    by simp
  note inst = register_lifetimes [OF h1 h2 resolveAll_testRequests]
  have l0: "objectsOfJwksRetriever testHeap = 0"
    by (simp add: testHeap_def objectsOfJwksRetriever_def)
  have one: "objectsOfJwksRetriever (snd (register testRoot testHeap)) = 1"
    using inst l0 by simp
  have at5: "snd (register testRoot testHeap) ! 5 = JwksRetriever (Ref 0) Null"
    by (simp add: register_testRoot)
  show ?thesis
    using h1 l0 one at5 by (simp add: resolveAll_testRequests)
qed

end
